theory Spec2Isabelle
  imports Main
begin

section \<open>Wire values\<close>

text \<open>
  Every response body reaches the client through \<^verbatim>\<open>await response.json()\<close>, so the
  values the model layer sees are the Python images of JSON: \<^verbatim>\<open>None\<close>, \<^verbatim>\<open>bool\<close>,
  \<^verbatim>\<open>int\<close> (unbounded), \<^verbatim>\<open>float\<close>, \<^verbatim>\<open>str\<close>, \<^verbatim>\<open>list\<close> and \<^verbatim>\<open>dict\<close> with string
  keys. A dict is an association list read with \<^const>\<open>map_of\<close>. Python floats are kept
  opaque: no property below computes with one.
\<close>

typedecl pyfloat

datatype json =
    JNull
  | JBool bool
  | JInt int
  | JFloat pyfloat
  | JStr string
  | JList "json list"
  | JDict "(string \<times> json) list"

section \<open>Field validation\<close>

text \<open>
  The classes of \<^verbatim>\<open>models.py\<close> and \<^verbatim>\<open>Response\<close> in \<^verbatim>\<open>client.py\<close> are pydantic
  \<^verbatim>\<open>BaseModel\<close>s: constructing one validates every declared field, in declaration
  order, collects the errors of all fields, and raises one \<^verbatim>\<open>ValidationError\<close> holding
  them all, or else returns the instance. The library is not part of the repository; its
  behaviour is fixed here as follows.

  \<^item> \<^verbatim>\<open>tests/test_models.py\<close> requires \<^verbatim>\<open>Account(name=123, ...)\<close> to raise
    \<^verbatim>\<open>ValidationError\<close>. A \<^verbatim>\<open>str\<close> field therefore accepts a string only (pydantic 2;
    pydantic 1 would have stored \<^verbatim>\<open>"123"\<close>), and the rest of the model follows the
    same major version: a field annotated \<^verbatim>\<open>Optional[T]\<close> with no default accepts
    \<^verbatim>\<open>None\<close> but its key is required; a union picks the member whose type matches the
    input exactly before trying any conversion; unknown keys are ignored; a field with
    an alias is read under the alias only.
  \<^item> For \<^verbatim>\<open>bool\<close>, \<^verbatim>\<open>int\<close>, \<^verbatim>\<open>float\<close> and enum fields the library also converts some
    inputs of another kind (\<^verbatim>\<open>1\<close> to \<^verbatim>\<open>True\<close>, \<^verbatim>\<open>"12"\<close> to \<^verbatim>\<open>12\<close>, \<^verbatim>\<open>42\<close> to
    \<^verbatim>\<open>42.0\<close>, ...). These tables are a parameter of the model, the record \<open>lax\<close>: each
    entry is asked only when the input is not already of the declared kind, and every
    property below holds for every table.
  \<^item> The validator of a class that refers to itself counts the validations of that class
    that are under way, one inside the other, and refuses to start one more past a
    fixed limit (\<^verbatim>\<open>RECURSION_GUARD_LIMIT\<close> of pydantic-core, 255 on CPython outside
    Windows): the value at that place is reported as a recursion error. The field
    \<open>recursion_guard_limit\<close> of the same record is the greatest number of validations of
    the class that may enclose one that is still carried out, and every property below
    holds for every such number.
\<close>

record lax =
  lax_bool :: "json \<Rightarrow> bool option"
  lax_int :: "json \<Rightarrow> int option"
  lax_float :: "json \<Rightarrow> pyfloat option"
  lax_enum :: "json \<Rightarrow> int option"
  recursion_guard_limit :: nat

text \<open>A validator that converts nothing, with the limit of CPython.\<close>

definition no_lax :: lax where
  "no_lax = \<lparr>lax_bool = (\<lambda>_. None), lax_int = (\<lambda>_. None),
            lax_float = (\<lambda>_. None), lax_enum = (\<lambda>_. None),
            recursion_guard_limit = 255\<rparr>"

text \<open>
  One line of a \<^verbatim>\<open>ValidationError\<close>: where (the path of keys, list indices and union
  members from the validated value down) and why.
\<close>

datatype loc_item = Field string | Index nat | Member string

datatype err_type =
    missing
  | string_type
  | bool_type
  | int_type
  | float_type
  | enum_type
  | list_type
  | dict_type
  | model_type
  | recursion_loop

type_synonym verr = "loc_item list \<times> err_type"

type_synonym 'a validated = "verr list + 'a"

definition fail :: "err_type \<Rightarrow> 'a validated" where
  "fail t = Inl [([], t)]"

definition at :: "loc_item \<Rightarrow> 'a validated \<Rightarrow> 'a validated" where
  "at l r = (case r of Inl es \<Rightarrow> Inl (map (\<lambda>(p, t). (l # p, t)) es) | Inr v \<Rightarrow> Inr v)"

definition errors_of :: "'a validated \<Rightarrow> verr list" where
  "errors_of r = (case r of Inl es \<Rightarrow> es | Inr _ \<Rightarrow> [])"

text \<open>
  Validation of the next field: the errors of the fields before it and its own are
  concatenated; a value results only when neither side has an error.
\<close>

definition ap :: "('a \<Rightarrow> 'b) validated \<Rightarrow> 'a validated \<Rightarrow> 'b validated" where
  "ap f x =
     (case f of
        Inr g \<Rightarrow> (case x of Inr v \<Rightarrow> Inr (g v) | Inl es \<Rightarrow> Inl es)
      | Inl es \<Rightarrow> Inl (es @ errors_of x))"

text \<open>A required field: a missing key is an error of its own.\<close>

definition field :: "(string \<times> json) list \<Rightarrow> string \<Rightarrow> (json \<Rightarrow> 'a validated) \<Rightarrow> 'a validated" where
  "field kvs k v =
     at (Field k) (case map_of kvs k of None \<Rightarrow> fail missing | Some j \<Rightarrow> v j)"

definition str_v :: "json \<Rightarrow> string validated" where
  "str_v j = (case j of JStr s \<Rightarrow> Inr s | _ \<Rightarrow> fail string_type)"

definition bool_v :: "lax \<Rightarrow> json \<Rightarrow> bool validated" where
  "bool_v lx j =
     (case j of
        JBool b \<Rightarrow> Inr b
      | _ \<Rightarrow> (case lax_bool lx j of Some b \<Rightarrow> Inr b | None \<Rightarrow> fail bool_type))"

definition int_v :: "lax \<Rightarrow> json \<Rightarrow> int validated" where
  "int_v lx j =
     (case j of
        JInt n \<Rightarrow> Inr n
      | _ \<Rightarrow> (case lax_int lx j of Some n \<Rightarrow> Inr n | None \<Rightarrow> fail int_type))"

definition float_v :: "lax \<Rightarrow> json \<Rightarrow> pyfloat validated" where
  "float_v lx j =
     (case j of
        JFloat x \<Rightarrow> Inr x
      | _ \<Rightarrow> (case lax_float lx j of Some x \<Rightarrow> Inr x | None \<Rightarrow> fail float_type))"

text \<open>\<^verbatim>\<open>Optional[T]\<close>: \<^verbatim>\<open>None\<close> is accepted as it is, anything else goes to \<^verbatim>\<open>T\<close>.\<close>

definition optional_v :: "(json \<Rightarrow> 'a validated) \<Rightarrow> json \<Rightarrow> 'a option validated" where
  "optional_v v j = (if j = JNull then Inr None else map_sum id Some (v j))"

text \<open>
  \<^verbatim>\<open>list[T]\<close>: every element is validated; the errors of element \<open>i\<close> are reported
  under index \<open>i\<close>.
\<close>

fun list_results :: "nat \<Rightarrow> 'a validated list \<Rightarrow> 'a list validated" where
  "list_results i [] = Inr []"
| "list_results i (r # rs) = ap (ap (Inr (#)) (at (Index i) r)) (list_results (Suc i) rs)"

definition list_v :: "(json \<Rightarrow> 'a validated) \<Rightarrow> json \<Rightarrow> 'a list validated" where
  "list_v v j = (case j of JList js \<Rightarrow> list_results 0 (map v js) | _ \<Rightarrow> fail list_type)"

section \<open>The envelope (client.py)\<close>

text \<open>
  \<^verbatim>\<open>
  class Response(BaseModel):
      success: bool
      error: Optional[str]
      data: Optional[Union[dict, list, str, None]]
  \<close>
  \<^verbatim>\<open>data\<close> keeps a dict, a list, a string or \<^verbatim>\<open>None\<close> as it is and rejects every
  other kind, under each member of the union.
\<close>

record Response =
  Response_success :: bool
  Response_error :: "string option"
  Response_data :: json

definition data_v :: "json \<Rightarrow> json validated" where
  "data_v j =
     (case j of
        JNull \<Rightarrow> Inr j
      | JDict _ \<Rightarrow> Inr j
      | JList _ \<Rightarrow> Inr j
      | JStr _ \<Rightarrow> Inr j
      | _ \<Rightarrow> Inl [([Member ''dict[any,any]''], dict_type),
                  ([Member ''list[any]''], list_type),
                  ([Member ''str''], string_type)])"

definition Response_fields :: "lax \<Rightarrow> (string \<times> json) list \<Rightarrow> Response validated" where
  "Response_fields lx kvs =
     ap (ap (ap (Inr (\<lambda>s e d. \<lparr>Response_success = s, Response_error = e, Response_data = d\<rparr>))
       (field kvs ''success'' (bool_v lx)))
       (field kvs ''error'' (optional_v str_v)))
       (field kvs ''data'' data_v)"

text \<open>
  What a call can raise. \<^verbatim>\<open>ExaError(response_data.error)\<close> carries the (optional)
  string of the envelope; \<^verbatim>\<open>AssertionError\<close> comes from the \<^verbatim>\<open>assert\<close> statements;
  \<^verbatim>\<open>TypeError\<close> from \<^verbatim>\<open>Model(**x)\<close> when \<^verbatim>\<open>x\<close> is not a mapping; \<^verbatim>\<open>KeyError\<close> from
  \<^verbatim>\<open>data["ram"]\<close>; \<^verbatim>\<open>ClientError\<close> stands for whatever the HTTP library raises
  (\<^verbatim>\<open>raise_for_status\<close>, a body that is not JSON).
\<close>

datatype exception =
    ExaError "string option"
  | AssertionError
  | ValidationError "verr list"
  | TypeError
  | KeyError string
  | ClientError

definition init :: "((string \<times> json) list \<Rightarrow> 'a validated) \<Rightarrow> json \<Rightarrow> exception + 'a" where
  "init validate j =
     (case j of
        JDict kvs \<Rightarrow> (case validate kvs of Inl es \<Rightarrow> Inl (ValidationError es) | Inr m \<Rightarrow> Inr m)
      | _ \<Rightarrow> Inl TypeError)"

text \<open>
  The transport: each decoder opens a session, sends one request and reads the body.
  The model takes the remote side as a function from the request to what
  \<^verbatim>\<open>response.json()\<close> returns, or to the error raised before that. The
  authorisation header is the same in every request and is left out. A request carries
  nothing, a JSON object (\<^verbatim>\<open>json=object\<close>), bytes (\<^verbatim>\<open>data=data\<close>), or nothing under the
  content type \<^verbatim>\<open>inode/directory\<close>.
\<close>

datatype verb = GET | POST | PUT | DELETE

datatype body = Json json | Data string | Inode_directory

type_synonym transport = "verb \<Rightarrow> string \<Rightarrow> body option \<Rightarrow> exception + json"

definition BASE_URL :: string where
  "BASE_URL = ''https://api.exaroton.com/v1/''"

definition Client_get_data :: "lax \<Rightarrow> transport \<Rightarrow> string \<Rightarrow> exception + json" where
  "Client_get_data lx http route =
     (case http GET (BASE_URL @ route) None of
        Inl e \<Rightarrow> Inl e
      | Inr raw_response_data \<Rightarrow>
          (case init (Response_fields lx) raw_response_data of
             Inl e \<Rightarrow> Inl e
           | Inr response_data \<Rightarrow>
               if Response_success response_data then Inr (Response_data response_data)
               else Inl (ExaError (Response_error response_data))))"

definition Client_post_object :: "lax \<Rightarrow> transport \<Rightarrow> string \<Rightarrow> json \<Rightarrow> exception + json" where
  "Client_post_object lx http route object =
     (case http POST (BASE_URL @ route) (Some (Json object)) of
        Inl e \<Rightarrow> Inl e
      | Inr raw_response_data \<Rightarrow>
          (case init (Response_fields lx) raw_response_data of
             Inl e \<Rightarrow> Inl e
           | Inr response_data \<Rightarrow>
               if Response_success response_data then
                 (if Response_data response_data = JNull then Inl AssertionError
                  else Inr (Response_data response_data))
               else Inl (ExaError (Response_error response_data))))"

definition Client_put_object :: "lax \<Rightarrow> transport \<Rightarrow> string \<Rightarrow> json \<Rightarrow> exception + json" where
  "Client_put_object lx http route object =
     (case http PUT (BASE_URL @ route) (Some (Json object)) of
        Inl e \<Rightarrow> Inl e
      | Inr raw_response_data \<Rightarrow>
          (case init (Response_fields lx) raw_response_data of
             Inl e \<Rightarrow> Inl e
           | Inr response_data \<Rightarrow>
               if Response_success response_data then
                 (if Response_data response_data = JNull then Inl AssertionError
                  else Inr (Response_data response_data))
               else Inl (ExaError (Response_error response_data))))"

definition Client_delete_object :: "lax \<Rightarrow> transport \<Rightarrow> string \<Rightarrow> json \<Rightarrow> exception + json" where
  "Client_delete_object lx http route object =
     (case http DELETE (BASE_URL @ route) (Some (Json object)) of
        Inl e \<Rightarrow> Inl e
      | Inr raw_response_data \<Rightarrow>
          (case init (Response_fields lx) raw_response_data of
             Inl e \<Rightarrow> Inl e
           | Inr response_data \<Rightarrow>
               if Response_success response_data then
                 (if Response_data response_data = JNull then Inl AssertionError
                  else Inr (Response_data response_data))
               else Inl (ExaError (Response_error response_data))))"


section \<open>The records (models.py)\<close>

subsection \<open>ServerStatus\<close>

text \<open>
  \<^verbatim>\<open>class ServerStatus(Enum)\<close> declares ten members by value; a status field is
  decoded by the enum call \<^verbatim>\<open>ServerStatus(n)\<close>, which returns the member with that
  value and fails when there is none.
\<close>

datatype ServerStatus =
    offline
  | online
  | starting
  | stopping
  | restarting
  | saving
  | loading
  | crashed
  | pending
  | preparing

fun ServerStatus_value :: "ServerStatus \<Rightarrow> int" where
  "ServerStatus_value offline = 0"
| "ServerStatus_value online = 1"
| "ServerStatus_value starting = 2"
| "ServerStatus_value stopping = 3"
| "ServerStatus_value restarting = 4"
| "ServerStatus_value saving = 5"
| "ServerStatus_value loading = 6"
| "ServerStatus_value crashed = 7"
| "ServerStatus_value pending = 8"
| "ServerStatus_value preparing = 10"

definition ServerStatus_members :: "ServerStatus list" where
  "ServerStatus_members =
     [offline, online, starting, stopping, restarting, saving, loading, crashed, pending,
      preparing]"

definition ServerStatus_call :: "int \<Rightarrow> ServerStatus option" where
  "ServerStatus_call n = find (\<lambda>m. ServerStatus_value m = n) ServerStatus_members"

definition ServerStatus_v :: "lax \<Rightarrow> json \<Rightarrow> ServerStatus validated" where
  "ServerStatus_v lx j =
     (case (case j of JInt n \<Rightarrow> Some n | _ \<Rightarrow> lax_enum lx j) of
        None \<Rightarrow> fail enum_type
      | Some n \<Rightarrow> (case ServerStatus_call n of Some m \<Rightarrow> Inr m | None \<Rightarrow> fail enum_type))"

subsection \<open>Flat and nested records\<close>

text \<open>A field whose type is another model takes a dict and validates its fields.\<close>

definition model_v :: "((string \<times> json) list \<Rightarrow> 'a validated) \<Rightarrow> json \<Rightarrow> 'a validated" where
  "model_v validate j = (case j of JDict kvs \<Rightarrow> validate kvs | _ \<Rightarrow> fail model_type)"

record Account =
  Account_name :: string
  Account_email :: string
  Account_verified :: bool
  Account_credits :: pyfloat

definition Account_fields :: "lax \<Rightarrow> (string \<times> json) list \<Rightarrow> Account validated" where
  "Account_fields lx kvs =
     ap (ap (ap (ap (Inr (\<lambda>n e v c.
          \<lparr>Account_name = n, Account_email = e, Account_verified = v, Account_credits = c\<rparr>))
       (field kvs ''name'' str_v))
       (field kvs ''email'' str_v))
       (field kvs ''verified'' (bool_v lx)))
       (field kvs ''credits'' (float_v lx))"

record ServerPlayers =
  ServerPlayers_max :: int
  ServerPlayers_count :: int
  ServerPlayers_list :: "string list"

definition ServerPlayers_fields :: "lax \<Rightarrow> (string \<times> json) list \<Rightarrow> ServerPlayers validated" where
  "ServerPlayers_fields lx kvs =
     ap (ap (ap (Inr (\<lambda>m c l.
          \<lparr>ServerPlayers_max = m, ServerPlayers_count = c, ServerPlayers_list = l\<rparr>))
       (field kvs ''max'' (int_v lx)))
       (field kvs ''count'' (int_v lx)))
       (field kvs ''list'' (list_v str_v))"

record ServerSoftware =
  ServerSoftware_id :: string
  ServerSoftware_name :: string
  ServerSoftware_version :: string

definition ServerSoftware_fields :: "(string \<times> json) list \<Rightarrow> ServerSoftware validated" where
  "ServerSoftware_fields kvs =
     ap (ap (ap (Inr (\<lambda>i n v.
          \<lparr>ServerSoftware_id = i, ServerSoftware_name = n, ServerSoftware_version = v\<rparr>))
       (field kvs ''id'' str_v))
       (field kvs ''name'' str_v))
       (field kvs ''version'' str_v)"

record Server =
  Server_id :: string
  Server_name :: string
  Server_address :: string
  Server_motd :: string
  Server_status :: ServerStatus
  Server_host :: "string option"
  Server_port :: "int option"
  Server_players :: ServerPlayers
  Server_software :: "ServerSoftware option"
  Server_shared :: bool

definition Server_fields :: "lax \<Rightarrow> (string \<times> json) list \<Rightarrow> Server validated" where
  "Server_fields lx kvs =
     ap (ap (ap (ap (ap (ap (ap (ap (ap (ap (Inr (\<lambda>i n a m st h p pl sw sh.
          \<lparr>Server_id = i, Server_name = n, Server_address = a, Server_motd = m,
           Server_status = st, Server_host = h, Server_port = p, Server_players = pl,
           Server_software = sw, Server_shared = sh\<rparr>))
       (field kvs ''id'' str_v))
       (field kvs ''name'' str_v))
       (field kvs ''address'' str_v))
       (field kvs ''motd'' str_v))
       (field kvs ''status'' (ServerStatus_v lx)))
       (field kvs ''host'' (optional_v str_v)))
       (field kvs ''port'' (optional_v (int_v lx))))
       (field kvs ''players'' (model_v (ServerPlayers_fields lx))))
       (field kvs ''software'' (optional_v (model_v ServerSoftware_fields))))
       (field kvs ''shared'' (bool_v lx))"

record LogUpload =
  LogUpload_id :: string
  LogUpload_url :: string
  LogUpload_raw :: string

definition LogUpload_fields :: "(string \<times> json) list \<Rightarrow> LogUpload validated" where
  "LogUpload_fields kvs =
     ap (ap (ap (Inr (\<lambda>i u r. \<lparr>LogUpload_id = i, LogUpload_url = u, LogUpload_raw = r\<rparr>))
       (field kvs ''id'' str_v))
       (field kvs ''url'' str_v))
       (field kvs ''raw'' str_v)"

subsection \<open>ConfigOption\<close>

text \<open>
  \<^verbatim>\<open>value: Union[str, int, float, bool]\<close>. The union first looks for the member whose
  type is exactly the type of the input, in the order of the annotation (a \<^verbatim>\<open>bool\<close> is
  not an exact \<^verbatim>\<open>int\<close>); only when there is none are the conversions tried, in the
  same order, and when all fail each member reports its error. Nothing in the class
  relates \<^verbatim>\<open>value\<close> to the sibling field \<^verbatim>\<open>type\<close>, which is a plain \<^verbatim>\<open>str\<close>.
\<close>

datatype scalar = VStr string | VInt int | VFloat pyfloat | VBool bool

definition scalar_v :: "lax \<Rightarrow> json \<Rightarrow> scalar validated" where
  "scalar_v lx j =
     (case j of
        JStr s \<Rightarrow> Inr (VStr s)
      | JInt n \<Rightarrow> Inr (VInt n)
      | JFloat x \<Rightarrow> Inr (VFloat x)
      | JBool b \<Rightarrow> Inr (VBool b)
      | _ \<Rightarrow>
         (case lax_int lx j of
            Some n \<Rightarrow> Inr (VInt n)
          | None \<Rightarrow>
             (case lax_float lx j of
                Some x \<Rightarrow> Inr (VFloat x)
              | None \<Rightarrow>
                 (case lax_bool lx j of
                    Some b \<Rightarrow> Inr (VBool b)
                  | None \<Rightarrow> Inl [([Member ''str''], string_type), ([Member ''int''], int_type),
                                  ([Member ''float''], float_type),
                                  ([Member ''bool''], bool_type)]))))"

record ConfigOption =
  ConfigOption_key :: string
  ConfigOption_value :: scalar
  ConfigOption_label :: string
  ConfigOption_type :: string
  ConfigOption_options :: "scalar list option"

definition ConfigOption_fields :: "lax \<Rightarrow> (string \<times> json) list \<Rightarrow> ConfigOption validated" where
  "ConfigOption_fields lx kvs =
     ap (ap (ap (ap (ap (Inr (\<lambda>k v l t os.
          \<lparr>ConfigOption_key = k, ConfigOption_value = v, ConfigOption_label = l,
           ConfigOption_type = t, ConfigOption_options = os\<rparr>))
       (field kvs ''key'' str_v))
       (field kvs ''value'' (scalar_v lx)))
       (field kvs ''label'' str_v))
       (field kvs ''type'' str_v))
       (field kvs ''options'' (optional_v (list_v (scalar_v lx))))"

subsection \<open>PathInfo\<close>

text \<open>
  \<^verbatim>\<open>children: Optional[list["PathInfo"]]\<close> makes the class recursive: the validator
  of a node calls itself on every element of the list stored under \<^verbatim>\<open>children\<close>. The
  six flags are read under their aliases (\<^verbatim>\<open>Field(alias="isTextFile")\<close>, ...).
  \<open>PathInfo_at lx depth\<close> validates a node that \<open>depth\<close> validations of the class
  enclose: the recursion guard comes first and refuses the node when \<open>depth\<close> is over
  the limit. \<^verbatim>\<open>PathInfo(**data)\<close> is the validation that nothing encloses.
\<close>

datatype PathInfo =
  PathInfo
    (PathInfo_path: string)
    (PathInfo_name: string)
    (PathInfo_is_text_file: bool)
    (PathInfo_is_config_file: bool)
    (PathInfo_is_directory: bool)
    (PathInfo_is_log: bool)
    (PathInfo_is_readable: bool)
    (PathInfo_is_writable: bool)
    (PathInfo_size: int)
    (PathInfo_children: "PathInfo list option")

lemma field_cong [fundef_cong]:
  assumes "kvs = kvs'" and "k = k'"
    and "\<And>j. map_of kvs' k' = Some j \<Longrightarrow> v j = v' j"
  shows "field kvs k v = field kvs' k' v'"
  using assms by (simp add: field_def split: option.splits)

lemma optional_v_cong [fundef_cong]:
  assumes "j = j'" and "j' \<noteq> JNull \<Longrightarrow> v j' = v' j'"
  shows "optional_v v j = optional_v v' j'"
  using assms by (simp add: optional_v_def)

lemma list_v_cong [fundef_cong]:
  assumes "j = j'" and "\<And>js x. j' = JList js \<Longrightarrow> x \<in> set js \<Longrightarrow> v x = v' x"
  shows "list_v v j = list_v v' j'"
  using assms by (cases j') (simp_all add: list_v_def cong: map_cong)

lemma size_list_member: "x \<in> set js \<Longrightarrow> size x < Suc (size_list size js)"
  by (induction js) auto

lemma size_map_of: "map_of kvs k = Some j \<Longrightarrow> size j < size (JDict kvs)"
  by (induction kvs) (auto split: if_splits)

function (sequential) PathInfo_at :: "lax \<Rightarrow> nat \<Rightarrow> json \<Rightarrow> PathInfo validated" where
  "PathInfo_at lx depth (JDict kvs) =
     (if recursion_guard_limit lx < depth then fail recursion_loop
      else
        ap (ap (ap (ap (ap (ap (ap (ap (ap (ap (Inr PathInfo)
          (field kvs ''path'' str_v))
          (field kvs ''name'' str_v))
          (field kvs ''isTextFile'' (bool_v lx)))
          (field kvs ''isConfigFile'' (bool_v lx)))
          (field kvs ''isDirectory'' (bool_v lx)))
          (field kvs ''isLog'' (bool_v lx)))
          (field kvs ''isReadable'' (bool_v lx)))
          (field kvs ''isWritable'' (bool_v lx)))
          (field kvs ''size'' (int_v lx)))
          (field kvs ''children'' (optional_v (list_v (PathInfo_at lx (Suc depth))))))"
| "PathInfo_at lx depth j =
     (if recursion_guard_limit lx < depth then fail recursion_loop else fail model_type)"
  by pat_completeness auto
termination
proof (relation "measure (\<lambda>(lx, depth, j). size j)", goal_cases)
  case 1
  show ?case by simp
next
  case (2 lx depth kvs j js x)
  then have "size x < size j" and "size j < size (JDict kvs)"
    using size_list_member [of x js] size_map_of [of kvs "''children''" j] by simp_all
  then show ?case by simp
qed

definition PathInfo_v :: "lax \<Rightarrow> json \<Rightarrow> PathInfo validated" where
  "PathInfo_v lx j = PathInfo_at lx 0 j"

definition PathInfo_fields :: "lax \<Rightarrow> (string \<times> json) list \<Rightarrow> PathInfo validated" where
  "PathInfo_fields lx kvs = PathInfo_v lx (JDict kvs)"

section \<open>The operations (client.py)\<close>

text \<open>
  \<^verbatim>\<open>for x in data: out.append(Model(**x))\<close>: the first element that fails ends the
  loop with its exception.
\<close>

fun init_each :: "((string \<times> json) list \<Rightarrow> 'a validated) \<Rightarrow> json list \<Rightarrow> exception + 'a list" where
  "init_each validate [] = Inr []"
| "init_each validate (x # xs) =
     (case init validate x of
        Inl e \<Rightarrow> Inl e
      | Inr m \<Rightarrow> (case init_each validate xs of Inl e \<Rightarrow> Inl e | Inr ms \<Rightarrow> Inr (m # ms)))"

text \<open>\<^verbatim>\<open>assert isinstance(data, str) or data is None; return data\<close>\<close>

definition str_or_None :: "json \<Rightarrow> exception + string option" where
  "str_or_None data =
     (case data of JStr s \<Rightarrow> Inr (Some s) | JNull \<Rightarrow> Inr None | _ \<Rightarrow> Inl AssertionError)"

text \<open>\<^verbatim>\<open>assert isinstance(data, dict); return data[key]\<close>\<close>

definition dict_item :: "json \<Rightarrow> string \<Rightarrow> exception + json" where
  "dict_item data key =
     (case data of
        JDict kvs \<Rightarrow> (case map_of kvs key of None \<Rightarrow> Inl (KeyError key) | Some x \<Rightarrow> Inr x)
      | _ \<Rightarrow> Inl AssertionError)"

text \<open>\<^verbatim>\<open>assert isinstance(data, list); return data\<close>\<close>

definition list_data :: "json \<Rightarrow> exception + json list" where
  "list_data data = (case data of JList xs \<Rightarrow> Inr xs | _ \<Rightarrow> Inl AssertionError)"

definition Client_account :: "lax \<Rightarrow> transport \<Rightarrow> exception + Account" where
  "Client_account lx http =
     (case Client_get_data lx http ''account'' of
        Inl e \<Rightarrow> Inl e
      | Inr data \<Rightarrow>
          (case data of JDict _ \<Rightarrow> init (Account_fields lx) data | _ \<Rightarrow> Inl AssertionError))"

definition Client_servers :: "lax \<Rightarrow> transport \<Rightarrow> exception + Server list" where
  "Client_servers lx http =
     (case Client_get_data lx http ''servers'' of
        Inl e \<Rightarrow> Inl e
      | Inr data \<Rightarrow>
          (case data of
             JList servers \<Rightarrow> init_each (Server_fields lx) servers
           | _ \<Rightarrow> Inl AssertionError))"

definition Client_server :: "lax \<Rightarrow> transport \<Rightarrow> string \<Rightarrow> exception + Server" where
  "Client_server lx http server_id =
     (case Client_get_data lx http (''servers/'' @ server_id) of
        Inl e \<Rightarrow> Inl e
      | Inr data \<Rightarrow>
          (case data of JDict _ \<Rightarrow> init (Server_fields lx) data | _ \<Rightarrow> Inl AssertionError))"

definition Client_log :: "lax \<Rightarrow> transport \<Rightarrow> string \<Rightarrow> exception + json" where
  "Client_log lx http server_id =
     (case Client_get_data lx http (''servers/'' @ server_id @ ''/logs'') of
        Inl e \<Rightarrow> Inl e
      | Inr data \<Rightarrow> dict_item data ''content'')"

definition Client_share_log :: "lax \<Rightarrow> transport \<Rightarrow> string \<Rightarrow> exception + LogUpload" where
  "Client_share_log lx http server_id =
     (case Client_get_data lx http (''servers/'' @ server_id @ ''/logs/share'') of
        Inl e \<Rightarrow> Inl e
      | Inr data \<Rightarrow>
          (case data of JDict _ \<Rightarrow> init LogUpload_fields data | _ \<Rightarrow> Inl AssertionError))"

definition Client_ram :: "lax \<Rightarrow> transport \<Rightarrow> string \<Rightarrow> exception + json" where
  "Client_ram lx http server_id =
     (case Client_get_data lx http (''servers/'' @ server_id @ ''/options/ram'') of
        Inl e \<Rightarrow> Inl e
      | Inr data \<Rightarrow> dict_item data ''ram'')"

definition Client_set_ram :: "lax \<Rightarrow> transport \<Rightarrow> string \<Rightarrow> int \<Rightarrow> exception + json" where
  "Client_set_ram lx http server_id ram =
     (case Client_post_object lx http (''servers/'' @ server_id @ ''/options/ram'')
             (JDict [(''ram'', JInt ram)]) of
        Inl e \<Rightarrow> Inl e
      | Inr data \<Rightarrow> dict_item data ''ram'')"

definition Client_motd :: "lax \<Rightarrow> transport \<Rightarrow> string \<Rightarrow> exception + json" where
  "Client_motd lx http server_id =
     (case Client_get_data lx http (''servers/'' @ server_id @ ''/options/motd'') of
        Inl e \<Rightarrow> Inl e
      | Inr data \<Rightarrow> dict_item data ''motd'')"

definition Client_set_motd :: "lax \<Rightarrow> transport \<Rightarrow> string \<Rightarrow> string \<Rightarrow> exception + json" where
  "Client_set_motd lx http server_id motd =
     (case Client_post_object lx http (''servers/'' @ server_id @ ''/options/motd'')
             (JDict [(''motd'', JStr motd)]) of
        Inl e \<Rightarrow> Inl e
      | Inr data \<Rightarrow> dict_item data ''motd'')"

definition Client_start :: "lax \<Rightarrow> transport \<Rightarrow> string \<Rightarrow> bool \<Rightarrow> exception + string option" where
  "Client_start lx http server_id use_own_credits =
     (case (if use_own_credits then
              Client_post_object lx http (''servers/'' @ server_id @ ''/start'')
                (JDict [(''useOwnCredits'', JBool True)])
            else Client_get_data lx http (''servers/'' @ server_id @ ''/start'')) of
        Inl e \<Rightarrow> Inl e
      | Inr data \<Rightarrow> str_or_None data)"

definition Client_stop :: "lax \<Rightarrow> transport \<Rightarrow> string \<Rightarrow> exception + string option" where
  "Client_stop lx http server_id =
     (case Client_get_data lx http (''servers/'' @ server_id @ ''/stop'') of
        Inl e \<Rightarrow> Inl e
      | Inr data \<Rightarrow> str_or_None data)"

definition Client_restart :: "lax \<Rightarrow> transport \<Rightarrow> string \<Rightarrow> exception + string option" where
  "Client_restart lx http server_id =
     (case Client_get_data lx http (''servers/'' @ server_id @ ''/restart'') of
        Inl e \<Rightarrow> Inl e
      | Inr data \<Rightarrow> str_or_None data)"

definition Client_execute_command ::
    "lax \<Rightarrow> transport \<Rightarrow> string \<Rightarrow> string \<Rightarrow> exception + string option" where
  "Client_execute_command lx http server_id command =
     (case Client_post_object lx http (''servers/'' @ server_id @ ''/command'')
             (JDict [(''command'', JStr command)]) of
        Inl e \<Rightarrow> Inl e
      | Inr data \<Rightarrow> str_or_None data)"

definition Client_enabled_playerlists ::
    "lax \<Rightarrow> transport \<Rightarrow> string \<Rightarrow> exception + json list" where
  "Client_enabled_playerlists lx http server_id =
     (case Client_get_data lx http (''servers/'' @ server_id @ ''/playerlists'') of
        Inl e \<Rightarrow> Inl e
      | Inr data \<Rightarrow> list_data data)"

definition Client_playerlist_content ::
    "lax \<Rightarrow> transport \<Rightarrow> string \<Rightarrow> string \<Rightarrow> exception + json list" where
  "Client_playerlist_content lx http server_id list_name =
     (case Client_get_data lx http (''servers/'' @ server_id @ ''/playerlists/'' @ list_name) of
        Inl e \<Rightarrow> Inl e
      | Inr data \<Rightarrow> list_data data)"

definition Client_add_to_playerlist ::
    "lax \<Rightarrow> transport \<Rightarrow> string \<Rightarrow> string \<Rightarrow> string list \<Rightarrow> exception + json list" where
  "Client_add_to_playerlist lx http server_id list_name content =
     (case Client_put_object lx http (''servers/'' @ server_id @ ''/playerlists/'' @ list_name)
             (JDict [(''entries'', JList (map JStr content))]) of
        Inl e \<Rightarrow> Inl e
      | Inr data \<Rightarrow> list_data data)"

definition Client_remove_from_playerlist ::
    "lax \<Rightarrow> transport \<Rightarrow> string \<Rightarrow> string \<Rightarrow> string list \<Rightarrow> exception + json list" where
  "Client_remove_from_playerlist lx http server_id list_name content =
     (case Client_delete_object lx http
             (''servers/'' @ server_id @ ''/playerlists/'' @ list_name)
             (JDict [(''entries'', JList (map JStr content))]) of
        Inl e \<Rightarrow> Inl e
      | Inr data \<Rightarrow> list_data data)"

definition Client_path_info :: "lax \<Rightarrow> transport \<Rightarrow> string \<Rightarrow> string \<Rightarrow> exception + PathInfo" where
  "Client_path_info lx http server_id path =
     (case Client_get_data lx http (''servers/'' @ server_id @ ''/files/info/'' @ path) of
        Inl e \<Rightarrow> Inl e
      | Inr data \<Rightarrow>
          (case data of JDict _ \<Rightarrow> init (PathInfo_fields lx) data | _ \<Rightarrow> Inl AssertionError))"

text \<open>
  The three operations on file data send their request themselves and decode the
  response in place; the assertion on the shape stands where the decoders have
  \<^verbatim>\<open>assert response_data.data is not None\<close>.
\<close>

definition Client_write_file_data ::
    "lax \<Rightarrow> transport \<Rightarrow> string \<Rightarrow> string \<Rightarrow> string \<Rightarrow> exception + string option" where
  "Client_write_file_data lx http server_id path data =
     (case http PUT (BASE_URL @ ''servers/'' @ server_id @ ''/files/data/'' @ path)
             (Some (Data data)) of
        Inl e \<Rightarrow> Inl e
      | Inr raw_response_data \<Rightarrow>
          (case init (Response_fields lx) raw_response_data of
             Inl e \<Rightarrow> Inl e
           | Inr response_data \<Rightarrow>
               if Response_success response_data then str_or_None (Response_data response_data)
               else Inl (ExaError (Response_error response_data))))"

definition Client_create_directory ::
    "lax \<Rightarrow> transport \<Rightarrow> string \<Rightarrow> string \<Rightarrow> exception + string option" where
  "Client_create_directory lx http server_id path =
     (case http PUT (BASE_URL @ ''servers/'' @ server_id @ ''/files/data/'' @ path)
             (Some Inode_directory) of
        Inl e \<Rightarrow> Inl e
      | Inr raw_response_data \<Rightarrow>
          (case init (Response_fields lx) raw_response_data of
             Inl e \<Rightarrow> Inl e
           | Inr response_data \<Rightarrow>
               if Response_success response_data then str_or_None (Response_data response_data)
               else Inl (ExaError (Response_error response_data))))"

definition Client_delete_file_data ::
    "lax \<Rightarrow> transport \<Rightarrow> string \<Rightarrow> string \<Rightarrow> exception + string option" where
  "Client_delete_file_data lx http server_id path =
     (case http DELETE (BASE_URL @ ''servers/'' @ server_id @ ''/files/data/'' @ path) None of
        Inl e \<Rightarrow> Inl e
      | Inr raw_response_data \<Rightarrow>
          (case init (Response_fields lx) raw_response_data of
             Inl e \<Rightarrow> Inl e
           | Inr response_data \<Rightarrow>
               if Response_success response_data then str_or_None (Response_data response_data)
               else Inl (ExaError (Response_error response_data))))"

definition Client_get_config_options ::
    "lax \<Rightarrow> transport \<Rightarrow> string \<Rightarrow> string \<Rightarrow> exception + ConfigOption list" where
  "Client_get_config_options lx http server_id path =
     (case Client_get_data lx http (''servers/'' @ server_id @ ''/files/config/'' @ path) of
        Inl e \<Rightarrow> Inl e
      | Inr data \<Rightarrow>
          (case data of
             JList config_options \<Rightarrow> init_each (ConfigOption_fields lx) config_options
           | _ \<Rightarrow> Inl AssertionError))"

definition Client_set_config_options ::
    "lax \<Rightarrow> transport \<Rightarrow> string \<Rightarrow> json \<Rightarrow> string \<Rightarrow> exception + ConfigOption list" where
  "Client_set_config_options lx http server_id options path =
     (case Client_post_object lx http (''servers/'' @ server_id @ ''/files/config/'' @ path)
             options of
        Inl e \<Rightarrow> Inl e
      | Inr data \<Rightarrow>
          (case data of
             JList config_options \<Rightarrow> init_each (ConfigOption_fields lx) config_options
           | _ \<Rightarrow> Inl AssertionError))"

text \<open>The decoder a request with the given verb goes through, and the body it sends.\<close>

fun request_body :: "verb \<Rightarrow> json \<Rightarrow> body option" where
  "request_body GET object = None"
| "request_body v object = Some (Json object)"

fun Client_decode :: "lax \<Rightarrow> transport \<Rightarrow> verb \<Rightarrow> string \<Rightarrow> json \<Rightarrow> exception + json" where
  "Client_decode lx http GET route object = Client_get_data lx http route"
| "Client_decode lx http POST route object = Client_post_object lx http route object"
| "Client_decode lx http PUT route object = Client_put_object lx http route object"
| "Client_decode lx http DELETE route object = Client_delete_object lx http route object"

section \<open>Payloads\<close>

subsection \<open>Responses\<close>

text \<open>
  The kinds of \<^verbatim>\<open>data\<close> that \<^verbatim>\<open>Response\<close> declares (a dict, a list, a string or
  \<^verbatim>\<open>None\<close>), the JSON value of an optional string, the two shapes the operations
  assert, and the acknowledgement of an operation that returns nothing.
\<close>

definition is_data :: "json \<Rightarrow> bool" where
  "is_data d =
     (case d of JNull \<Rightarrow> True | JDict _ \<Rightarrow> True | JList _ \<Rightarrow> True | JStr _ \<Rightarrow> True | _ \<Rightarrow> False)"

definition str_opt_wire :: "string option \<Rightarrow> json" where
  "str_opt_wire e = (case e of None \<Rightarrow> JNull | Some m \<Rightarrow> JStr m)"

definition is_dict :: "json \<Rightarrow> bool" where
  "is_dict d = (case d of JDict _ \<Rightarrow> True | _ \<Rightarrow> False)"

definition is_list :: "json \<Rightarrow> bool" where
  "is_list d = (case d of JList _ \<Rightarrow> True | _ \<Rightarrow> False)"

definition no_content :: json where
  "no_content = JDict [(''success'', JBool True), (''error'', JNull), (''data'', JNull)]"

text \<open>
  The errors \<^verbatim>\<open>Response\<close> reports for a \<^verbatim>\<open>data\<close> that is a number or a boolean: one
  for each member of the union.
\<close>

definition data_errors :: "verr list" where
  "data_errors =
     [([Field ''data'', Member ''dict[any,any]''], dict_type),
      ([Field ''data'', Member ''list[any]''], list_type),
      ([Field ''data'', Member ''str''], string_type)]"

subsection \<open>What the classes declare\<close>

text \<open>
  The constraint a field declares, as a predicate on the value under its key: the kind
  of the annotation (for \<^verbatim>\<open>bool\<close>, \<^verbatim>\<open>int\<close>, \<^verbatim>\<open>float\<close> and the enum, also what the
  library converts to it), null as well for \<^verbatim>\<open>Optional\<close>, every element for a list,
  every field for a nested class. A field violates its constraint when its key is
  missing or the value under it does not satisfy the predicate; \<open>violations\<close> lists the
  keys of the violating fields of a payload, in the order of the declaration.
\<close>

definition is_str :: "json \<Rightarrow> bool" where
  "is_str j = (case j of JStr _ \<Rightarrow> True | _ \<Rightarrow> False)"

definition is_bool :: "lax \<Rightarrow> json \<Rightarrow> bool" where
  "is_bool lx j = (case j of JBool _ \<Rightarrow> True | _ \<Rightarrow> lax_bool lx j \<noteq> None)"

definition is_int :: "lax \<Rightarrow> json \<Rightarrow> bool" where
  "is_int lx j = (case j of JInt _ \<Rightarrow> True | _ \<Rightarrow> lax_int lx j \<noteq> None)"

definition is_float :: "lax \<Rightarrow> json \<Rightarrow> bool" where
  "is_float lx j = (case j of JFloat _ \<Rightarrow> True | _ \<Rightarrow> lax_float lx j \<noteq> None)"

definition is_status :: "lax \<Rightarrow> json \<Rightarrow> bool" where
  "is_status lx j =
     (case (case j of JInt n \<Rightarrow> Some n | _ \<Rightarrow> lax_enum lx j) of
        None \<Rightarrow> False
      | Some n \<Rightarrow> n \<in> {0, 1, 2, 3, 4, 5, 6, 7, 8, 10})"

definition is_scalar :: "lax \<Rightarrow> json \<Rightarrow> bool" where
  "is_scalar lx j =
     (case j of
        JStr _ \<Rightarrow> True
      | JInt _ \<Rightarrow> True
      | JFloat _ \<Rightarrow> True
      | JBool _ \<Rightarrow> True
      | _ \<Rightarrow> lax_int lx j \<noteq> None \<or> lax_float lx j \<noteq> None \<or> lax_bool lx j \<noteq> None)"

definition nullable :: "(json \<Rightarrow> bool) \<Rightarrow> json \<Rightarrow> bool" where
  "nullable ok j = (j = JNull \<or> ok j)"

definition is_list_of :: "(json \<Rightarrow> bool) \<Rightarrow> json \<Rightarrow> bool" where
  "is_list_of ok j = (case j of JList js \<Rightarrow> list_all ok js | _ \<Rightarrow> False)"

definition field_ok :: "(string \<times> json) list \<Rightarrow> string \<Rightarrow> (json \<Rightarrow> bool) \<Rightarrow> bool" where
  "field_ok kvs k ok = (case map_of kvs k of None \<Rightarrow> False | Some j \<Rightarrow> ok j)"

type_synonym schema = "(string \<times> (json \<Rightarrow> bool)) list"

definition violations :: "(string \<times> json) list \<Rightarrow> schema \<Rightarrow> string list" where
  "violations kvs sch = map fst (filter (\<lambda>(k, ok). \<not> field_ok kvs k ok) sch)"

definition is_record :: "schema \<Rightarrow> json \<Rightarrow> bool" where
  "is_record sch j = (case j of JDict kvs \<Rightarrow> violations kvs sch = [] | _ \<Rightarrow> False)"


definition ServerPlayers_schema :: "lax \<Rightarrow> schema" where
  "ServerPlayers_schema lx =
     [(''max'', is_int lx), (''count'', is_int lx), (''list'', is_list_of is_str)]"

definition ServerSoftware_schema :: schema where
  "ServerSoftware_schema = [(''id'', is_str), (''name'', is_str), (''version'', is_str)]"

definition Server_schema :: "lax \<Rightarrow> schema" where
  "Server_schema lx =
     [(''id'', is_str), (''name'', is_str), (''address'', is_str), (''motd'', is_str),
      (''status'', is_status lx), (''host'', nullable is_str), (''port'', nullable (is_int lx)),
      (''players'', is_record (ServerPlayers_schema lx)),
      (''software'', nullable (is_record ServerSoftware_schema)),
      (''shared'', is_bool lx)]"


definition ConfigOption_schema :: "lax \<Rightarrow> schema" where
  "ConfigOption_schema lx =
     [(''key'', is_str), (''value'', is_scalar lx), (''label'', is_str), (''type'', is_str),
      (''options'', nullable (is_list_of (is_scalar lx)))]"

text \<open>
  A \<^verbatim>\<open>PathInfo\<close> node that \<open>depth\<close> nodes enclose is as declared when the recursion
  guard lets it through, it is a dict, and each of its fields is as declared, the
  elements of \<^verbatim>\<open>children\<close> being nodes that one node more encloses.
\<close>

lemma field_ok_cong [fundef_cong]:
  assumes "kvs = kvs'" and "k = k'"
    and "\<And>j. map_of kvs' k' = Some j \<Longrightarrow> ok j = ok' j"
  shows "field_ok kvs k ok = field_ok kvs' k' ok'"
  using assms by (simp add: field_ok_def split: option.splits)

lemma nullable_cong [fundef_cong]:
  assumes "j = j'" and "j' \<noteq> JNull \<Longrightarrow> ok j' = ok' j'"
  shows "nullable ok j = nullable ok' j'"
  using assms by (auto simp: nullable_def)

lemma is_list_of_cong [fundef_cong]:
  assumes "j = j'" and "\<And>js x. j' = JList js \<Longrightarrow> x \<in> set js \<Longrightarrow> ok x = ok' x"
  shows "is_list_of ok j = is_list_of ok' j'"
  using assms by (cases j') (simp_all add: is_list_of_def list_all_iff)

function (sequential) is_PathInfo_at :: "lax \<Rightarrow> nat \<Rightarrow> json \<Rightarrow> bool" where
  "is_PathInfo_at lx depth (JDict kvs) =
     (depth \<le> recursion_guard_limit lx
      \<and> field_ok kvs ''path'' is_str
      \<and> field_ok kvs ''name'' is_str
      \<and> field_ok kvs ''isTextFile'' (is_bool lx)
      \<and> field_ok kvs ''isConfigFile'' (is_bool lx)
      \<and> field_ok kvs ''isDirectory'' (is_bool lx)
      \<and> field_ok kvs ''isLog'' (is_bool lx)
      \<and> field_ok kvs ''isReadable'' (is_bool lx)
      \<and> field_ok kvs ''isWritable'' (is_bool lx)
      \<and> field_ok kvs ''size'' (is_int lx)
      \<and> field_ok kvs ''children'' (nullable (is_list_of (is_PathInfo_at lx (Suc depth)))))"
| "is_PathInfo_at lx depth j = False"
  by pat_completeness auto
termination
proof (relation "measure (\<lambda>(lx, depth, j). size j)", goal_cases)
  case 1
  show ?case by simp
next
  case (2 lx depth kvs j js x)
  then have "size x < size j" and "size j < size (JDict kvs)"
    using size_list_member [of x js] size_map_of [of kvs "''children''" j] by simp_all
  then show ?case by simp
qed

definition PathInfo_schema :: "lax \<Rightarrow> schema" where
  "PathInfo_schema lx =
     [(''path'', is_str), (''name'', is_str), (''isTextFile'', is_bool lx),
      (''isConfigFile'', is_bool lx), (''isDirectory'', is_bool lx), (''isLog'', is_bool lx),
      (''isReadable'', is_bool lx), (''isWritable'', is_bool lx), (''size'', is_int lx),
      (''children'', nullable (is_list_of (is_PathInfo_at lx 1)))]"

text \<open>
  The key of the record's own field that an error cites (none when the error is not
  under a field), and what a construction owes to the declaration: it returns a record
  only if no field violates its constraint, and otherwise an error list in which every
  error cites a violating field and every violating field is cited.
\<close>

fun cited :: "verr \<Rightarrow> string option" where
  "cited (Field k # p, t) = Some k"
| "cited (p, t) = None"


subsection \<open>Wire images\<close>

text \<open>
  The wire image of a validated scalar and of an \<^verbatim>\<open>options\<close> value: the JSON value of
  the same kind.
\<close>

fun scalar_wire :: "scalar \<Rightarrow> json" where
  "scalar_wire (VStr s) = JStr s"
| "scalar_wire (VInt n) = JInt n"
| "scalar_wire (VFloat x) = JFloat x"
| "scalar_wire (VBool b) = JBool b"

definition options_wire :: "scalar list option \<Rightarrow> json" where
  "options_wire os = (case os of None \<Rightarrow> JNull | Some vs \<Rightarrow> JList (map scalar_wire vs))"




section \<open>Example payloads\<close>

text \<open>The \<^verbatim>\<open>normal_data\<close> of \<^verbatim>\<open>test_server\<close> in \<^verbatim>\<open>tests/test_models.py\<close>.\<close>

definition example_server :: "(string \<times> json) list" where
  "example_server =
     [(''id'', JStr ''EwYiY9IAMtQBTb6U''), (''name'', JStr ''example''),
      (''address'', JStr ''example.exaroton.me''),
      (''motd'', JStr ''Welcome to the server of example!''),
      (''status'', JInt 0), (''host'', JNull), (''port'', JNull),
      (''players'', JDict [(''max'', JInt 20), (''count'', JInt 0), (''list'', JList [])]),
      (''software'', JDict [(''id'', JStr ''kb4p09ABvLjxzedx''), (''name'', JStr ''Vanilla''),
                            (''version'', JStr ''1.16.5'')]),
      (''shared'', JBool False)]"


text \<open>The payload of the test without the key \<^verbatim>\<open>host\<close>.\<close>

definition example_server_no_host :: "(string \<times> json) list" where
  "example_server_no_host =
     [(''id'', JStr ''EwYiY9IAMtQBTb6U''), (''name'', JStr ''example''),
      (''address'', JStr ''example.exaroton.me''),
      (''motd'', JStr ''Welcome to the server of example!''),
      (''status'', JInt 0), (''port'', JNull),
      (''players'', JDict [(''max'', JInt 20), (''count'', JInt 0), (''list'', JList [])]),
      (''software'', JDict [(''id'', JStr ''kb4p09ABvLjxzedx''), (''name'', JStr ''Vanilla''),
                            (''version'', JStr ''1.16.5'')]),
      (''shared'', JBool False)]"

text \<open>The record the test's payload validates to.\<close>

definition example_server_record :: Server where
  "example_server_record =
     \<lparr>Server_id = ''EwYiY9IAMtQBTb6U'', Server_name = ''example'',
      Server_address = ''example.exaroton.me'',
      Server_motd = ''Welcome to the server of example!'',
      Server_status = offline, Server_host = None, Server_port = None,
      Server_players = \<lparr>ServerPlayers_max = 20, ServerPlayers_count = 0, ServerPlayers_list = []\<rparr>,
      Server_software = Some \<lparr>ServerSoftware_id = ''kb4p09ABvLjxzedx'',
                              ServerSoftware_name = ''Vanilla'',
                              ServerSoftware_version = ''1.16.5''\<rparr>,
      Server_shared = False\<rparr>"

text \<open>A file node and a configuration option as the service sends them.\<close>

definition example_leaf :: "(string \<times> json) list" where
  "example_leaf =
     [(''path'', JStr ''server.properties''), (''name'', JStr ''server.properties''),
      (''isTextFile'', JBool True), (''isConfigFile'', JBool True),
      (''isDirectory'', JBool False), (''isLog'', JBool False),
      (''isReadable'', JBool True), (''isWritable'', JBool True),
      (''size'', JInt 1240), (''children'', JNull)]"

definition example_option :: "(string \<times> json) list" where
  "example_option =
     [(''key'', JStr ''pvp''), (''value'', JBool True), (''label'', JStr ''PvP''),
      (''type'', JStr ''boolean''), (''options'', JNull)]"

text \<open>An option of a select type, and one whose value is a string under a boolean type.\<close>

definition example_select :: "(string \<times> json) list" where
  "example_select =
     [(''key'', JStr ''difficulty''), (''value'', JInt 2), (''label'', JStr ''Difficulty''),
      (''type'', JStr ''select''), (''options'', JList [JInt 0, JInt 1, JInt 2, JInt 3])]"

definition example_string_option :: "(string \<times> json) list" where
  "example_string_option =
     [(''key'', JStr ''pvp''), (''value'', JStr ''true''), (''label'', JStr ''PvP''),
      (''type'', JStr ''boolean''), (''options'', JNull)]"



text \<open>The payload of the test with \<^verbatim>\<open>software\<close> null.\<close>

definition example_server_null_software :: "(string \<times> json) list" where
  "example_server_null_software =
     [(''id'', JStr ''EwYiY9IAMtQBTb6U''), (''name'', JStr ''example''),
      (''address'', JStr ''example.exaroton.me''),
      (''motd'', JStr ''Welcome to the server of example!''),
      (''status'', JInt 0), (''host'', JNull), (''port'', JNull),
      (''players'', JDict [(''max'', JInt 20), (''count'', JInt 0), (''list'', JList [])]),
      (''software'', JNull), (''shared'', JBool False)]"

section \<open>Auxiliary notions\<close>

text \<open>
  A result that is not an empty error list; a validator that fails on a value exactly
  when the value is not as declared; the invariant of a record validation along its
  fields; a result that holds an error of a given type.
\<close>

definition proper :: "'a validated \<Rightarrow> bool" where
  "proper r = (r \<noteq> Inl [])"

definition decides :: "(json \<Rightarrow> 'a validated) \<Rightarrow> (json \<Rightarrow> bool) \<Rightarrow> json \<Rightarrow> bool" where
  "decides v ok j \<longleftrightarrow> proper (v j) \<and> (isl (v j) \<longleftrightarrow> \<not> ok j)"

definition inv :: "'a validated \<Rightarrow> (string \<times> json) list \<Rightarrow> schema \<Rightarrow> bool" where
  "inv r kvs sch \<longleftrightarrow>
     proper r \<and> set (map cited (errors_of r)) = set (map Some (violations kvs sch))
     \<and> (isl r \<longleftrightarrow> violations kvs sch \<noteq> [])"

definition has_error :: "err_type \<Rightarrow> 'a validated \<Rightarrow> bool" where
  "has_error t r = (t \<in> snd ` set (errors_of r))"

section \<open>Properties of the validators\<close>

lemma ap_Inr_iff: "ap f x = Inr y \<longleftrightarrow> (\<exists>g v. f = Inr g \<and> x = Inr v \<and> y = g v)"
  by (auto simp: ap_def split: sum.splits)

lemma errors_of_simps [simp]: "errors_of (Inr v) = []" "errors_of (Inl es) = es"
  by (simp_all add: errors_of_def)

lemma errors_of_ap: "errors_of (ap f x) = errors_of f @ errors_of x"
  by (simp add: ap_def split: sum.splits)

lemma errors_of_at: "errors_of (at l r) = map (\<lambda>(p, t). (l # p, t)) (errors_of r)"
  by (cases r) (simp_all add: at_def)

lemma errors_Inl: "errors_of r \<noteq> [] \<Longrightarrow> r = Inl (errors_of r)"
  by (cases r) simp_all

lemma cited_Inl: "e \<in> set (errors_of r) \<Longrightarrow> \<exists>es. r = Inl es \<and> e \<in> set es"
  by (cases r) simp_all

lemma isl_ap: "isl (ap f x) \<longleftrightarrow> isl f \<or> isl x"
  by (auto simp: ap_def split: sum.splits)

lemma isl_at: "isl (at l r) \<longleftrightarrow> isl r"
  by (cases r) (simp_all add: at_def)

lemma at_Inr_iff: "at l r = Inr x \<longleftrightarrow> r = Inr x"
  by (cases r) (simp_all add: at_def)

lemma field_missing: "map_of kvs k = None \<Longrightarrow> field kvs k v = Inl [([Field k], missing)]"
  by (simp add: field_def fail_def at_def)

lemma field_present: "map_of kvs k = Some j \<Longrightarrow> field kvs k v = at (Field k) (v j)"
  by (simp add: field_def)

lemma field_Inr_iff: "field kvs k v = Inr x \<longleftrightarrow> (\<exists>j. map_of kvs k = Some j \<and> v j = Inr x)"
  by (cases "map_of kvs k") (simp_all add: field_def at_Inr_iff, simp add: fail_def at_def)

lemma optional_v_None_iff: "optional_v v j = Inr x \<Longrightarrow> x = None \<longleftrightarrow> j = JNull"
  by (cases "v j") (auto simp: optional_v_def split: if_splits)

lemma field_optional_None_iff:
  "field kvs k (optional_v v) = Inr x \<Longrightarrow> x = None \<longleftrightarrow> map_of kvs k = Some JNull"
  by (auto simp: field_Inr_iff dest: optional_v_None_iff)

lemma proper_ap: "proper f \<Longrightarrow> proper x \<Longrightarrow> proper (ap f x)"
  by (auto simp: proper_def ap_def split: sum.splits)

lemma proper_at: "proper r \<Longrightarrow> proper (at l r)"
  by (auto simp: proper_def at_def split: sum.splits)

lemma proper_fail: "proper (fail t)"
  by (simp add: proper_def fail_def)

lemma isl_fail: "isl (fail t)"
  by (simp add: fail_def)

lemma isl_list_results: "isl (list_results i rs) \<longleftrightarrow> (\<exists>r \<in> set rs. isl r)"
  by (induction rs arbitrary: i) (auto simp: isl_ap isl_at)

lemma proper_list_results: "(\<And>r. r \<in> set rs \<Longrightarrow> proper r) \<Longrightarrow> proper (list_results i rs)"
proof (induction rs arbitrary: i)
  case Nil
  show ?case by (simp add: proper_def)
next
  case (Cons r rs)
  have "proper (ap (Inr (#)) (at (Index i) r))"
    by (intro proper_ap proper_at) (simp_all add: proper_def Cons.prems[unfolded proper_def])
  moreover have "proper (list_results (Suc i) rs)"
    using Cons by simp
  ultimately show ?case
    by (simp add: proper_ap)
qed

lemma list_results_Inr_iff: "list_results i rs = Inr xs \<longleftrightarrow> rs = map Inr xs"
proof (induction rs arbitrary: i xs)
  case Nil
  show ?case by auto
next
  case (Cons r rs)
  show ?case
    by (cases xs) (auto simp: ap_Inr_iff at_Inr_iff Cons.IH)
qed

lemma list_results_Inr: "list_results i (map Inr xs) = Inr xs"
  by (simp add: list_results_Inr_iff)



subsection \<open>Validators and declared constraints\<close>

lemma decides_str_v: "decides str_v is_str j"
  by (simp add: decides_def str_v_def is_str_def proper_def fail_def split: json.splits)

lemma decides_bool_v: "decides (bool_v lx) (is_bool lx) j"
  by (simp add: decides_def bool_v_def is_bool_def proper_def fail_def
      split: json.splits option.splits)

lemma decides_int_v: "decides (int_v lx) (is_int lx) j"
  by (simp add: decides_def int_v_def is_int_def proper_def fail_def
      split: json.splits option.splits)

lemma decides_float_v: "decides (float_v lx) (is_float lx) j"
  by (simp add: decides_def float_v_def is_float_def proper_def fail_def
      split: json.splits option.splits)

lemma ServerStatus_call_cases:
  "ServerStatus_call n =
     (if n = 0 then Some offline else if n = 1 then Some online
      else if n = 2 then Some starting else if n = 3 then Some stopping
      else if n = 4 then Some restarting else if n = 5 then Some saving
      else if n = 6 then Some loading else if n = 7 then Some crashed
      else if n = 8 then Some pending else if n = 10 then Some preparing else None)"
  by (simp add: ServerStatus_call_def ServerStatus_members_def)

lemma ServerStatus_v_JInt:
  "ServerStatus_v lx (JInt n) = (case ServerStatus_call n of Some m \<Rightarrow> Inr m | None \<Rightarrow> fail enum_type)"
  by (simp add: ServerStatus_v_def)

lemma ServerStatus_call_None_iff:
  "ServerStatus_call n = None \<longleftrightarrow> n \<notin> {0, 1, 2, 3, 4, 5, 6, 7, 8, 10}"
  by (simp add: ServerStatus_call_cases)

lemma decides_ServerStatus_v: "decides (ServerStatus_v lx) (is_status lx) j"
proof -
  have "proper (ServerStatus_v lx j)"
    by (simp add: ServerStatus_v_def proper_def fail_def split: json.splits option.splits)
  moreover have c: "isl (case ServerStatus_call n of None \<Rightarrow> fail enum_type | Some m \<Rightarrow> Inr m)
      \<longleftrightarrow> n \<notin> {0, 1, 2, 3, 4, 5, 6, 7, 8, 10}" for n
    using ServerStatus_call_None_iff [of n]
    by (cases "ServerStatus_call n") (simp_all add: isl_fail)
  have "isl (ServerStatus_v lx j) \<longleftrightarrow> \<not> is_status lx j"
    unfolding ServerStatus_v_def is_status_def
    by (cases "case j of JInt n \<Rightarrow> Some n | _ \<Rightarrow> lax_enum lx j")
       (simp_all add: isl_fail c del: insert_iff)
  ultimately show ?thesis
    by (simp add: decides_def)
qed

lemma decides_scalar_v: "decides (scalar_v lx) (is_scalar lx) j"
  by (auto simp: decides_def scalar_v_def is_scalar_def proper_def
      split: json.splits option.splits)

lemma decides_optional_v:
  "(j \<noteq> JNull \<Longrightarrow> decides v ok j) \<Longrightarrow> decides (optional_v v) (nullable ok) j"
  by (cases "v j") (auto simp: decides_def optional_v_def nullable_def proper_def)

lemma decides_list_v:
  assumes "\<And>js x. j = JList js \<Longrightarrow> x \<in> set js \<Longrightarrow> decides v ok x"
  shows "decides (list_v v) (is_list_of ok) j"
proof (cases j)
  case (JList js)
  have "proper (list_results 0 (map v js))"
    by (rule proper_list_results) (use assms JList in \<open>auto simp: decides_def\<close>)
  moreover have "isl (list_results 0 (map v js)) \<longleftrightarrow> \<not> list_all ok js"
    using assms JList by (auto simp: isl_list_results list_all_iff decides_def)
  ultimately show ?thesis
    using JList by (simp add: decides_def list_v_def is_list_of_def)
qed (simp_all add: decides_def list_v_def is_list_of_def proper_fail isl_fail)

lemma decides_model_v:
  assumes "\<And>kvs. j = JDict kvs \<Longrightarrow> inv (validate kvs) kvs sch"
  shows "decides (model_v validate) (is_record sch) j"
proof (cases j)
  case (JDict kvs)
  with assms show ?thesis
    by (auto simp: decides_def model_v_def is_record_def inv_def)
qed (simp_all add: decides_def model_v_def is_record_def proper_fail isl_fail)

lemmas decides_leaf = decides_str_v decides_bool_v decides_int_v decides_float_v
  decides_ServerStatus_v decides_scalar_v

subsection \<open>The invariant along the fields\<close>

lemma cited_at_Field: "map cited (map (\<lambda>(p, t). (Field k # p, t)) es) = replicate (length es) (Some k)"
  by (induction es) auto

lemma violations_append:
  "violations kvs (sch @ [(k, ok)]) = violations kvs sch @ (if field_ok kvs k ok then [] else [k])"
  by (simp add: violations_def)

lemma violations_Nil [simp]: "violations kvs [] = []"
  by (simp add: violations_def)

lemma violations_Cons:
  "violations kvs ((k, ok) # sch) = (if field_ok kvs k ok then [] else [k]) @ violations kvs sch"
  by (simp add: violations_def)

lemma field_decides:
  assumes "\<And>j. map_of kvs k = Some j \<Longrightarrow> decides v ok j"
  shows "proper (field kvs k v)" and "isl (field kvs k v) \<longleftrightarrow> \<not> field_ok kvs k ok"
    and "set (map cited (errors_of (field kvs k v))) = (if field_ok kvs k ok then {} else {Some k})"
proof -
  show p: "proper (field kvs k v)"
    using assms
    by (cases "map_of kvs k") (auto simp: field_def decides_def intro!: proper_at proper_fail)
  show i: "isl (field kvs k v) \<longleftrightarrow> \<not> field_ok kvs k ok"
    using assms
    by (cases "map_of kvs k") (auto simp: field_def field_ok_def decides_def isl_at isl_fail)
  show "set (map cited (errors_of (field kvs k v))) = (if field_ok kvs k ok then {} else {Some k})"
  proof (cases "field kvs k v")
    case (Inr x)
    with i show ?thesis by simp
  next
    case (Inl es)
    with p have "es \<noteq> []" by (simp add: proper_def)
    moreover from Inl have "es = errors_of (field kvs k v)"
      by simp
    then have "es = map (\<lambda>(p, t). (Field k # p, t))
                      (errors_of (case map_of kvs k of None \<Rightarrow> fail missing | Some j \<Rightarrow> v j))"
      by (simp add: field_def errors_of_at)
    then have "map cited es = replicate (length es) (Some k)"
      by (metis cited_at_Field length_map)
    ultimately show ?thesis
      using Inl i by auto
  qed
qed

lemma inv_base: "inv (Inr g) kvs []"
  by (simp add: inv_def proper_def)

lemma inv_step:
  assumes "inv f kvs sch" and "\<And>j. map_of kvs k = Some j \<Longrightarrow> decides v ok j"
  shows "inv (ap f (field kvs k v)) kvs (sch @ [(k, ok)])"
  using assms(1) field_decides [of kvs k v ok, OF assms(2)]
  by (auto simp: inv_def proper_ap errors_of_ap isl_ap violations_append)

lemma inv_proper: "inv r kvs sch \<Longrightarrow> proper r"
  by (simp add: inv_def)



lemma ServerPlayers_inv: "inv (ServerPlayers_fields lx kvs) kvs (ServerPlayers_schema lx)"
proof -
  have "inv (ServerPlayers_fields lx kvs) kvs
     ((([] @ [(''max'', is_int lx)]) @ [(''count'', is_int lx)])
      @ [(''list'', is_list_of is_str)])"
    unfolding ServerPlayers_fields_def by (intro inv_step inv_base decides_leaf decides_list_v)
  then show ?thesis by (simp add: ServerPlayers_schema_def)
qed

lemma ServerSoftware_inv: "inv (ServerSoftware_fields kvs) kvs ServerSoftware_schema"
proof -
  have "inv (ServerSoftware_fields kvs) kvs
     ((([] @ [(''id'', is_str)]) @ [(''name'', is_str)]) @ [(''version'', is_str)])"
    unfolding ServerSoftware_fields_def by (intro inv_step inv_base decides_leaf)
  then show ?thesis by (simp add: ServerSoftware_schema_def)
qed

lemma Server_inv: "inv (Server_fields lx kvs) kvs (Server_schema lx)"
proof -
  have "inv (Server_fields lx kvs) kvs
     (((((((((([] @ [(''id'', is_str)]) @ [(''name'', is_str)]) @ [(''address'', is_str)])
      @ [(''motd'', is_str)]) @ [(''status'', is_status lx)]) @ [(''host'', nullable is_str)])
      @ [(''port'', nullable (is_int lx))])
      @ [(''players'', is_record (ServerPlayers_schema lx))])
      @ [(''software'', nullable (is_record ServerSoftware_schema))])
      @ [(''shared'', is_bool lx)])"
    unfolding Server_fields_def
    by (intro inv_step inv_base decides_leaf decides_optional_v decides_model_v
          ServerPlayers_inv ServerSoftware_inv)
  then show ?thesis by (simp add: Server_schema_def)
qed


lemma ConfigOption_inv: "inv (ConfigOption_fields lx kvs) kvs (ConfigOption_schema lx)"
proof -
  have "inv (ConfigOption_fields lx kvs) kvs
     ((((([] @ [(''key'', is_str)]) @ [(''value'', is_scalar lx)]) @ [(''label'', is_str)])
      @ [(''type'', is_str)]) @ [(''options'', nullable (is_list_of (is_scalar lx)))])"
    unfolding ConfigOption_fields_def
    by (intro inv_step inv_base decides_leaf decides_optional_v decides_list_v)
  then show ?thesis by (simp add: ConfigOption_schema_def)
qed

subsection \<open>PathInfo\<close>

lemma PathInfo_at_decides:
  "decides (PathInfo_at lx depth) (is_PathInfo_at lx depth) j
   \<and> (\<forall>kvs. j = JDict kvs \<longrightarrow> depth \<le> recursion_guard_limit lx \<longrightarrow>
         inv (PathInfo_at lx depth j) kvs
           [(''path'', is_str), (''name'', is_str), (''isTextFile'', is_bool lx),
            (''isConfigFile'', is_bool lx), (''isDirectory'', is_bool lx),
            (''isLog'', is_bool lx), (''isReadable'', is_bool lx),
            (''isWritable'', is_bool lx), (''size'', is_int lx),
            (''children'', nullable (is_list_of (is_PathInfo_at lx (Suc depth))))])"
proof (induction lx depth j rule: PathInfo_at.induct)
  case (1 lx depth kvs)
  show ?case
  proof (cases "recursion_guard_limit lx < depth")
    case True
    then show ?thesis
      by (simp add: decides_def proper_fail isl_fail)
  next
    case False
    have ch: "\<And>j. map_of kvs ''children'' = Some j \<Longrightarrow>
        decides (optional_v (list_v (PathInfo_at lx (Suc depth))))
          (nullable (is_list_of (is_PathInfo_at lx (Suc depth)))) j"
      by (intro decides_optional_v decides_list_v) (use 1 False in blast)
    have "inv (PathInfo_at lx depth (JDict kvs)) kvs
       (((((((((([] @ [(''path'', is_str)]) @ [(''name'', is_str)])
        @ [(''isTextFile'', is_bool lx)]) @ [(''isConfigFile'', is_bool lx)])
        @ [(''isDirectory'', is_bool lx)]) @ [(''isLog'', is_bool lx)])
        @ [(''isReadable'', is_bool lx)]) @ [(''isWritable'', is_bool lx)])
        @ [(''size'', is_int lx)])
        @ [(''children'', nullable (is_list_of (is_PathInfo_at lx (Suc depth))))])"
      using False unfolding PathInfo_at.simps if_not_P [OF False]
      by (intro inv_step inv_base decides_leaf ch)
    then have i: "inv (PathInfo_at lx depth (JDict kvs)) kvs
           [(''path'', is_str), (''name'', is_str), (''isTextFile'', is_bool lx),
            (''isConfigFile'', is_bool lx), (''isDirectory'', is_bool lx),
            (''isLog'', is_bool lx), (''isReadable'', is_bool lx),
            (''isWritable'', is_bool lx), (''size'', is_int lx),
            (''children'', nullable (is_list_of (is_PathInfo_at lx (Suc depth))))]"
      by (simp del: PathInfo_at.simps)
    then have "decides (PathInfo_at lx depth) (is_PathInfo_at lx depth) (JDict kvs)"
      using False
      by (simp add: decides_def inv_def violations_Cons del: PathInfo_at.simps)
    with i show ?thesis
      by (simp del: PathInfo_at.simps)
  qed
qed (simp_all add: decides_def proper_fail isl_fail)

lemma PathInfo_inv: "inv (PathInfo_fields lx kvs) kvs (PathInfo_schema lx)"
  using PathInfo_at_decides [of lx 0 "JDict kvs"]
  by (simp add: PathInfo_fields_def PathInfo_v_def PathInfo_schema_def del: PathInfo_at.simps)

subsection \<open>When a construction returns a record\<close>




lemma Server_fields_Inr_iff:
  "Server_fields lx kvs = Inr s \<longleftrightarrow>
     field kvs ''id'' str_v = Inr (Server_id s)
     \<and> field kvs ''name'' str_v = Inr (Server_name s)
     \<and> field kvs ''address'' str_v = Inr (Server_address s)
     \<and> field kvs ''motd'' str_v = Inr (Server_motd s)
     \<and> field kvs ''status'' (ServerStatus_v lx) = Inr (Server_status s)
     \<and> field kvs ''host'' (optional_v str_v) = Inr (Server_host s)
     \<and> field kvs ''port'' (optional_v (int_v lx)) = Inr (Server_port s)
     \<and> field kvs ''players'' (model_v (ServerPlayers_fields lx)) = Inr (Server_players s)
     \<and> field kvs ''software'' (optional_v (model_v ServerSoftware_fields)) = Inr (Server_software s)
     \<and> field kvs ''shared'' (bool_v lx) = Inr (Server_shared s)"
  unfolding Server_fields_def ap_Inr_iff
  by (cases s) auto


lemma ConfigOption_fields_Inr_iff:
  "ConfigOption_fields lx kvs = Inr c \<longleftrightarrow>
     field kvs ''key'' str_v = Inr (ConfigOption_key c)
     \<and> field kvs ''value'' (scalar_v lx) = Inr (ConfigOption_value c)
     \<and> field kvs ''label'' str_v = Inr (ConfigOption_label c)
     \<and> field kvs ''type'' str_v = Inr (ConfigOption_type c)
     \<and> field kvs ''options'' (optional_v (list_v (scalar_v lx))) = Inr (ConfigOption_options c)"
  unfolding ConfigOption_fields_def ap_Inr_iff
  by (cases c) auto

lemma PathInfo_at_Inr_iff:
  "depth \<le> recursion_guard_limit lx \<Longrightarrow>
   PathInfo_at lx depth (JDict kvs) = Inr p \<longleftrightarrow>
     field kvs ''path'' str_v = Inr (PathInfo_path p)
     \<and> field kvs ''name'' str_v = Inr (PathInfo_name p)
     \<and> field kvs ''isTextFile'' (bool_v lx) = Inr (PathInfo_is_text_file p)
     \<and> field kvs ''isConfigFile'' (bool_v lx) = Inr (PathInfo_is_config_file p)
     \<and> field kvs ''isDirectory'' (bool_v lx) = Inr (PathInfo_is_directory p)
     \<and> field kvs ''isLog'' (bool_v lx) = Inr (PathInfo_is_log p)
     \<and> field kvs ''isReadable'' (bool_v lx) = Inr (PathInfo_is_readable p)
     \<and> field kvs ''isWritable'' (bool_v lx) = Inr (PathInfo_is_writable p)
     \<and> field kvs ''size'' (int_v lx) = Inr (PathInfo_size p)
     \<and> field kvs ''children'' (optional_v (list_v (PathInfo_at lx (Suc depth))))
         = Inr (PathInfo_children p)"
  by (cases p) (auto simp: ap_Inr_iff)

lemma PathInfo_fields_Inr_iff:
  "PathInfo_fields lx kvs = Inr p \<longleftrightarrow>
     field kvs ''path'' str_v = Inr (PathInfo_path p)
     \<and> field kvs ''name'' str_v = Inr (PathInfo_name p)
     \<and> field kvs ''isTextFile'' (bool_v lx) = Inr (PathInfo_is_text_file p)
     \<and> field kvs ''isConfigFile'' (bool_v lx) = Inr (PathInfo_is_config_file p)
     \<and> field kvs ''isDirectory'' (bool_v lx) = Inr (PathInfo_is_directory p)
     \<and> field kvs ''isLog'' (bool_v lx) = Inr (PathInfo_is_log p)
     \<and> field kvs ''isReadable'' (bool_v lx) = Inr (PathInfo_is_readable p)
     \<and> field kvs ''isWritable'' (bool_v lx) = Inr (PathInfo_is_writable p)
     \<and> field kvs ''size'' (int_v lx) = Inr (PathInfo_size p)
     \<and> field kvs ''children'' (optional_v (list_v (PathInfo_at lx (Suc 0))))
         = Inr (PathInfo_children p)"
  unfolding PathInfo_fields_def PathInfo_v_def
  by (rule PathInfo_at_Inr_iff) simp

subsection \<open>The errors of a construction\<close>

lemma Server_errors:
  "errors_of (Server_fields lx kvs) =
     errors_of (field kvs ''id'' str_v) @ errors_of (field kvs ''name'' str_v)
     @ errors_of (field kvs ''address'' str_v) @ errors_of (field kvs ''motd'' str_v)
     @ errors_of (field kvs ''status'' (ServerStatus_v lx))
     @ errors_of (field kvs ''host'' (optional_v str_v))
     @ errors_of (field kvs ''port'' (optional_v (int_v lx)))
     @ errors_of (field kvs ''players'' (model_v (ServerPlayers_fields lx)))
     @ errors_of (field kvs ''software'' (optional_v (model_v ServerSoftware_fields)))
     @ errors_of (field kvs ''shared'' (bool_v lx))"
  by (simp add: Server_fields_def errors_of_ap)

lemma PathInfo_at_errors:
  "depth \<le> recursion_guard_limit lx \<Longrightarrow>
   errors_of (PathInfo_at lx depth (JDict kvs)) =
     errors_of (field kvs ''path'' str_v) @ errors_of (field kvs ''name'' str_v)
     @ errors_of (field kvs ''isTextFile'' (bool_v lx))
     @ errors_of (field kvs ''isConfigFile'' (bool_v lx))
     @ errors_of (field kvs ''isDirectory'' (bool_v lx))
     @ errors_of (field kvs ''isLog'' (bool_v lx))
     @ errors_of (field kvs ''isReadable'' (bool_v lx))
     @ errors_of (field kvs ''isWritable'' (bool_v lx))
     @ errors_of (field kvs ''size'' (int_v lx))
     @ errors_of (field kvs ''children'' (optional_v (list_v (PathInfo_at lx (Suc depth)))))"
  by (simp add: errors_of_ap)

lemma PathInfo_errors:
  "errors_of (PathInfo_fields lx kvs) =
     errors_of (field kvs ''path'' str_v) @ errors_of (field kvs ''name'' str_v)
     @ errors_of (field kvs ''isTextFile'' (bool_v lx))
     @ errors_of (field kvs ''isConfigFile'' (bool_v lx))
     @ errors_of (field kvs ''isDirectory'' (bool_v lx))
     @ errors_of (field kvs ''isLog'' (bool_v lx))
     @ errors_of (field kvs ''isReadable'' (bool_v lx))
     @ errors_of (field kvs ''isWritable'' (bool_v lx))
     @ errors_of (field kvs ''size'' (int_v lx))
     @ errors_of (field kvs ''children'' (optional_v (list_v (PathInfo_at lx (Suc 0)))))"
  unfolding PathInfo_fields_def PathInfo_v_def
  by (rule PathInfo_at_errors) simp

lemma ConfigOption_errors:
  "errors_of (ConfigOption_fields lx kvs) =
     errors_of (field kvs ''key'' str_v) @ errors_of (field kvs ''value'' (scalar_v lx))
     @ errors_of (field kvs ''label'' str_v) @ errors_of (field kvs ''type'' str_v)
     @ errors_of (field kvs ''options'' (optional_v (list_v (scalar_v lx))))"
  by (simp add: ConfigOption_fields_def errors_of_ap)

lemma has_error_Inr [simp]: "\<not> has_error t (Inr x)"
  by (simp add: has_error_def)

lemma has_error_fail [simp]: "has_error t (fail t)"
  by (simp add: has_error_def fail_def)

lemma has_error_at [simp]: "has_error t (at l r) \<longleftrightarrow> has_error t r"
  by (cases r) (force simp: has_error_def at_def)+







subsection \<open>Trees and their wire images\<close>

lemma scalar_v_wire: "scalar_v lx (scalar_wire v) = Inr v"
  by (cases v) (simp_all add: scalar_v_def)

lemma list_v_scalar_wire: "list_v (scalar_v lx) (JList (map scalar_wire vs)) = Inr vs"
proof -
  have "map (scalar_v lx) (map scalar_wire vs) = map Inr vs"
    by (simp add: scalar_v_wire)
  then show ?thesis
    by (simp add: list_v_def list_results_Inr del: map_map)
qed

lemma options_v_wire: "optional_v (list_v (scalar_v lx)) (options_wire os) = Inr os"
  by (cases os) (simp_all add: options_wire_def optional_v_def list_v_scalar_wire)










section \<open>Properties of the decoders\<close>

lemma Response_fields_Inr_iff:
  "Response_fields lx kvs = Inr r \<longleftrightarrow>
     field kvs ''success'' (bool_v lx) = Inr (Response_success r)
     \<and> field kvs ''error'' (optional_v str_v) = Inr (Response_error r)
     \<and> field kvs ''data'' data_v = Inr (Response_data r)"
  unfolding Response_fields_def ap_Inr_iff
  by (cases r) auto

lemma field_success: "map_of kvs ''success'' = Some (JBool s) \<Longrightarrow> field kvs ''success'' (bool_v lx) = Inr s"
  by (simp add: field_def at_def bool_v_def)

lemma field_error:
  "map_of kvs ''error'' = Some (str_opt_wire e) \<Longrightarrow> field kvs ''error'' (optional_v str_v) = Inr e"
  by (cases e) (simp_all add: field_def at_def optional_v_def str_v_def str_opt_wire_def)

lemma field_data:
  "map_of kvs ''data'' = Some d \<Longrightarrow>
   field kvs ''data'' data_v = (if is_data d then Inr d else Inl data_errors)"
  by (cases d) (simp_all add: field_def at_def data_v_def is_data_def data_errors_def)

lemma Response_fields_accepted:
  assumes "map_of kvs ''success'' = Some (JBool s)"
    and "map_of kvs ''error'' = Some (str_opt_wire e)"
    and "map_of kvs ''data'' = Some d"
    and "is_data d"
  shows "Response_fields lx kvs =
           Inr \<lparr>Response_success = s, Response_error = e, Response_data = d\<rparr>"
  using assms by (simp add: Response_fields_Inr_iff field_success field_error field_data)

lemma Response_fields_bad_data:
  assumes "map_of kvs ''success'' = Some (JBool s)"
    and "map_of kvs ''error'' = Some (str_opt_wire e)"
    and "map_of kvs ''data'' = Some d"
    and "\<not> is_data d"
  shows "Response_fields lx kvs = Inl data_errors"
  using assms by (simp add: Response_fields_def field_success field_error field_data ap_def)

lemma Response_fields_no_data:
  assumes "map_of kvs ''success'' = Some (JBool s)"
    and "map_of kvs ''error'' = Some (str_opt_wire e)"
    and "map_of kvs ''data'' = None"
  shows "Response_fields lx kvs = Inl [([Field ''data''], missing)]"
  using assms by (simp add: Response_fields_def field_success field_error field_missing ap_def)

lemma Response_fields_no_error:
  assumes "map_of kvs ''success'' = Some (JBool s)"
    and "map_of kvs ''error'' = None"
    and "map_of kvs ''data'' = Some d"
    and "is_data d"
  shows "Response_fields lx kvs = Inl [([Field ''error''], missing)]"
  using assms by (simp add: Response_fields_def field_success field_missing field_data ap_def)

lemma optional_str_v_Inr: "optional_v str_v j = Inr m \<Longrightarrow> j = str_opt_wire m"
  by (cases j; cases m)
     (auto simp: optional_v_def str_v_def str_opt_wire_def fail_def split: if_splits)

lemma Response_success_eq:
  "Response_fields lx kvs = Inr r \<Longrightarrow> map_of kvs ''success'' = Some (JBool s) \<Longrightarrow>
   Response_success r = s"
  by (simp add: Response_fields_Inr_iff field_success)

text \<open>What each decoder does with the response, in terms of its \<^verbatim>\<open>Response\<close>.\<close>

lemma decode_Response:
  assumes "http v (BASE_URL @ route) (request_body v object) = Inr (JDict kvs)"
  shows "Client_decode lx http v route object =
     (case Response_fields lx kvs of
        Inl es \<Rightarrow> Inl (ValidationError es)
      | Inr r \<Rightarrow>
          if Response_success r then
            (if v \<noteq> GET \<and> Response_data r = JNull then Inl AssertionError
             else Inr (Response_data r))
          else Inl (ExaError (Response_error r)))"
  using assms
  by (cases v)
     (simp_all add: Client_get_data_def Client_post_object_def Client_put_object_def
        Client_delete_object_def init_def split: sum.splits)

lemma get_data_accepted:
  assumes "\<And>v u b. http v u b = Inr (JDict kvs)"
    and "Response_fields lx kvs = Inr \<lparr>Response_success = True, Response_error = e, Response_data = d\<rparr>"
  shows "Client_get_data lx http route = Inr d"
  using assms by (simp add: Client_get_data_def init_def)

lemma object_accepted:
  assumes "\<And>v u b. http v u b = Inr (JDict kvs)"
    and "Response_fields lx kvs = Inr \<lparr>Response_success = True, Response_error = e, Response_data = d\<rparr>"
  shows "Client_post_object lx http route object = (if d = JNull then Inl AssertionError else Inr d)"
    and "Client_put_object lx http route object = (if d = JNull then Inl AssertionError else Inr d)"
    and "Client_delete_object lx http route object = (if d = JNull then Inl AssertionError else Inr d)"
  using assms
  by (simp_all add: Client_post_object_def Client_put_object_def Client_delete_object_def init_def)

lemma decoders_rejected:
  assumes "\<And>v u b. http v u b = Inr (JDict kvs)" and "Response_fields lx kvs = Inl es"
  shows "Client_get_data lx http route = Inl (ValidationError es)"
    and "Client_post_object lx http route object = Inl (ValidationError es)"
    and "Client_put_object lx http route object = Inl (ValidationError es)"
    and "Client_delete_object lx http route object = Inl (ValidationError es)"
  using assms
  by (simp_all add: Client_get_data_def Client_post_object_def Client_put_object_def
        Client_delete_object_def init_def)

lemmas operation_defs = Client_account_def Client_servers_def Client_server_def Client_log_def
  Client_share_log_def Client_ram_def Client_set_ram_def Client_motd_def Client_set_motd_def
  Client_start_def Client_stop_def Client_restart_def Client_execute_command_def
  Client_enabled_playerlists_def Client_playerlist_content_def Client_add_to_playerlist_def
  Client_remove_from_playerlist_def Client_path_info_def Client_get_config_options_def
  Client_set_config_options_def

lemmas file_operation_defs = Client_write_file_data_def Client_create_directory_def
  Client_delete_file_data_def

section \<open>Claims about the decoders and the operations\<close>

text \<open>
  C1. The identity law of the decoders: on a success envelope whose data has the shape
  the calling operation expects, each decoder returns the data. \<^verbatim>\<open>start\<close> with its own
  credits and \<^verbatim>\<open>execute_command\<close> expect a string or \<^verbatim>\<open>None\<close> and go through
  \<^verbatim>\<open>_post_object\<close>; on the envelope \<^verbatim>\<open>{"success": true, "error": null, "data": null}\<close>
  that decoder, like the PUT and DELETE ones, raises \<^verbatim>\<open>AssertionError\<close> where the GET
  decoder returns \<^verbatim>\<open>None\<close>.
\<close>

theorem decode_None_data:
  "Client_decode lx (\<lambda>v u b. Inr no_content) GET route object = Inr JNull
   \<and> Client_decode lx (\<lambda>v u b. Inr no_content) POST route object = Inl AssertionError
   \<and> Client_decode lx (\<lambda>v u b. Inr no_content) PUT route object = Inl AssertionError
   \<and> Client_decode lx (\<lambda>v u b. Inr no_content) DELETE route object = Inl AssertionError"
proof -
  let ?kvs = "[(''success'', JBool True), (''error'', JNull), (''data'', JNull)]"
  have r: "Response_fields lx ?kvs =
      Inr \<lparr>Response_success = True, Response_error = None, Response_data = JNull\<rparr>"
    by (rule Response_fields_accepted) (simp_all add: str_opt_wire_def is_data_def)
  have d: "Client_decode lx (\<lambda>v u b. Inr no_content) v route object
      = (if v \<noteq> GET then Inl AssertionError else Inr JNull)" for v
    using decode_Response [where http = "\<lambda>v u b. Inr no_content" and kvs = ?kvs and lx = lx
        and v = v and route = route and object = object]
    by (simp add: no_content_def r)
  show ?thesis
    unfolding d by simp
qed

text \<open>
  C2. On a response whose \<^verbatim>\<open>success\<close> is false, whose \<^verbatim>\<open>error\<close> is a string or null
  and whose \<^verbatim>\<open>data\<close> is a dict, a list, a string or null, each of the four decoders
  raises \<^verbatim>\<open>ExaError\<close> with the response's \<^verbatim>\<open>error\<close> as its message, whatever that
  \<^verbatim>\<open>data\<close> is. The response is made a \<^verbatim>\<open>Response\<close> before \<^verbatim>\<open>success\<close> is looked at,
  so a \<^verbatim>\<open>data\<close> that is a number or a boolean, or that is missing, raises
  \<^verbatim>\<open>ValidationError\<close> for the field \<^verbatim>\<open>data\<close> instead. Whenever a decoder raises
  \<^verbatim>\<open>ExaError\<close> on such a response, the message is the value under \<^verbatim>\<open>error\<close>, and in
  no case does a decoder return anything.
\<close>

theorem decode_failure:
  assumes "http v (BASE_URL @ route) (request_body v object) = Inr (JDict kvs)"
    and "map_of kvs ''success'' = Some (JBool False)"
  shows "(map_of kvs ''error'' = Some (str_opt_wire e) \<and> map_of kvs ''data'' = Some d
          \<and> is_data d \<longrightarrow>
            Client_decode lx http v route object = Inl (ExaError e))
       \<and> (map_of kvs ''error'' = Some (str_opt_wire e) \<and> map_of kvs ''data'' = Some d
          \<and> \<not> is_data d \<longrightarrow>
            Client_decode lx http v route object = Inl (ValidationError data_errors))
       \<and> (map_of kvs ''error'' = Some (str_opt_wire e) \<and> map_of kvs ''data'' = None \<longrightarrow>
            Client_decode lx http v route object
              = Inl (ValidationError [([Field ''data''], missing)]))
       \<and> (Client_decode lx http v route object = Inl (ExaError m) \<longrightarrow>
            map_of kvs ''error'' = Some (str_opt_wire m))
       \<and> (\<forall>x. Client_decode lx http v route object \<noteq> Inr x)"
proof (intro conjI impI allI)
  note dr = decode_Response [where http = http and v = v and route = route and object = object,
      OF assms(1)]
  {
    assume "map_of kvs ''error'' = Some (str_opt_wire e) \<and> map_of kvs ''data'' = Some d
          \<and> is_data d"
    with assms(2) have "Response_fields lx kvs =
        Inr \<lparr>Response_success = False, Response_error = e, Response_data = d\<rparr>"
      by (simp add: Response_fields_accepted [where s = False and e = e and d = d])
    then show "Client_decode lx http v route object = Inl (ExaError e)"
      by (simp add: dr)
  next
    assume "map_of kvs ''error'' = Some (str_opt_wire e) \<and> map_of kvs ''data'' = Some d
          \<and> \<not> is_data d"
    with assms(2) have "Response_fields lx kvs = Inl data_errors"
      by (simp add: Response_fields_bad_data [where s = False and e = e and d = d])
    then show "Client_decode lx http v route object = Inl (ValidationError data_errors)"
      by (simp add: dr)
  next
    assume "map_of kvs ''error'' = Some (str_opt_wire e) \<and> map_of kvs ''data'' = None"
    with assms(2) have "Response_fields lx kvs = Inl [([Field ''data''], missing)]"
      by (simp add: Response_fields_no_data [where s = False and e = e])
    then show "Client_decode lx http v route object
        = Inl (ValidationError [([Field ''data''], missing)])"
      by (simp add: dr)
  next
    assume x: "Client_decode lx http v route object = Inl (ExaError m)"
    show "map_of kvs ''error'' = Some (str_opt_wire m)"
    proof (cases "Response_fields lx kvs")
      case (Inl es)
      with x show ?thesis
        by (simp add: dr)
    next
      case (Inr r)
      then have "\<not> Response_success r"
        using Response_success_eq [OF Inr assms(2)] by simp
      with Inr x have "Response_error r = m"
        by (simp add: dr)
      with Inr have "field kvs ''error'' (optional_v str_v) = Inr m"
        by (simp add: Response_fields_Inr_iff)
      then show ?thesis
        by (auto simp: field_Inr_iff dest: optional_str_v_Inr)
    qed
  next
    fix x
    show "Client_decode lx http v route object \<noteq> Inr x"
    proof (cases "Response_fields lx kvs")
      case (Inl es)
      then show ?thesis
        by (simp add: dr)
    next
      case (Inr r)
      then have "\<not> Response_success r"
        using Response_success_eq [OF Inr assms(2)] by simp
      with Inr show ?thesis
        by (simp add: dr)
    qed
  }
qed

theorem decode_failure_witness:
  "Client_decode no_lax
     (\<lambda>v u b. Inr (JDict [(''success'', JBool False),
                          (''error'', JStr ''Server is already running''),
                          (''data'', JList [JStr ''left over'']), (''extra'', JInt 1)]))
     POST ''servers/abc/start'' (JDict [(''useOwnCredits'', JBool True)])
     = Inl (ExaError (Some ''Server is already running''))
   \<and> Client_decode no_lax
       (\<lambda>v u b. Inr (JDict [(''success'', JBool False), (''error'', JNull),
                            (''data'', JBool True)]))
       GET ''account'' JNull
     = Inl (ValidationError data_errors)
   \<and> Client_decode no_lax
       (\<lambda>v u b. Inr (JDict [(''success'', JBool False), (''error'', JStr ''no'')]))
       DELETE ''servers/abc/playerlists/ops'' (JDict [(''entries'', JList [])])
     = Inl (ValidationError [([Field ''data''], missing)])"
  using decode_failure [where http = "\<lambda>v u b. Inr (JDict [(''success'', JBool False),
          (''error'', JStr ''Server is already running''),
          (''data'', JList [JStr ''left over'']), (''extra'', JInt 1)])"
      and kvs = "[(''success'', JBool False), (''error'', JStr ''Server is already running''),
          (''data'', JList [JStr ''left over'']), (''extra'', JInt 1)]"
      and v = POST and lx = no_lax and route = "''servers/abc/start''"
      and object = "JDict [(''useOwnCredits'', JBool True)]"
      and e = "Some ''Server is already running''" and d = "JList [JStr ''left over'']"]
    decode_failure [where http = "\<lambda>v u b. Inr (JDict [(''success'', JBool False),
          (''error'', JNull), (''data'', JBool True)])"
      and kvs = "[(''success'', JBool False), (''error'', JNull), (''data'', JBool True)]"
      and v = GET and lx = no_lax and route = "''account''" and object = JNull
      and e = None and d = "JBool True"]
    decode_failure [where http = "\<lambda>v u b. Inr (JDict [(''success'', JBool False),
          (''error'', JStr ''no'')])"
      and kvs = "[(''success'', JBool False), (''error'', JStr ''no'')]"
      and v = DELETE and lx = no_lax and route = "''servers/abc/playerlists/ops''"
      and object = "JDict [(''entries'', JList [])]" and e = "Some ''no''"]
  by (simp add: str_opt_wire_def is_data_def)

theorem decode_failure_number_counterexample:
  "Client_decode no_lax
     (\<lambda>v u b. Inr (JDict [(''success'', JBool False), (''error'', JStr ''Not found''),
                          (''data'', JInt 5)]))
     GET ''servers/abc'' JNull
   = Inl (ValidationError
       [([Field ''data'', Member ''dict[any,any]''], dict_type),
        ([Field ''data'', Member ''list[any]''], list_type),
        ([Field ''data'', Member ''str''], string_type)])"
  by (simp add: Client_get_data_def init_def Response_fields_def field_def ap_def at_def
        bool_v_def optional_v_def str_v_def data_v_def)

text \<open>
  C3. Let the service report success. When \<^verbatim>\<open>error\<close> is a string or null and
  \<^verbatim>\<open>data\<close> is one of the kinds \<^verbatim>\<open>Response\<close> declares but not the one the operation
  expects (a dict for \<^verbatim>\<open>account\<close>, \<^verbatim>\<open>server\<close>, \<^verbatim>\<open>log\<close>, \<^verbatim>\<open>share_log\<close>, \<^verbatim>\<open>ram\<close>,
  \<^verbatim>\<open>set_ram\<close>, \<^verbatim>\<open>motd\<close>, \<^verbatim>\<open>set_motd\<close> and \<^verbatim>\<open>path_info\<close>; a list for \<^verbatim>\<open>servers\<close>, the
  four playerlist operations and the two on config options; a string or \<^verbatim>\<open>None\<close> for
  \<^verbatim>\<open>start\<close>, \<^verbatim>\<open>stop\<close>, \<^verbatim>\<open>restart\<close>, \<^verbatim>\<open>execute_command\<close> and the three on file data),
  the operation raises \<^verbatim>\<open>AssertionError\<close>, from its own \<^verbatim>\<open>assert\<close> or from the one
  in the decoder; that is Python's own exception, not the \<^verbatim>\<open>ExaError\<close> of a reported
  failure. (The \<^verbatim>\<open>assert\<close> statements are taken as executed.) No operation comes to
  its assertion when \<^verbatim>\<open>Response\<close> rejects the response: whatever errors the
  construction of \<^verbatim>\<open>Response\<close> reports, the operation raises \<^verbatim>\<open>ValidationError\<close> with
  them. That is so when \<^verbatim>\<open>data\<close> is a number or a boolean, and when the key
  \<^verbatim>\<open>error\<close> is missing.
\<close>

theorem shape_mismatch:
  assumes "\<And>v u b. http v u b = Inr (JDict kvs)"
    and "map_of kvs ''success'' = Some (JBool True)"
    and "map_of kvs ''data'' = Some d"
  shows "(map_of kvs ''error'' = Some (str_opt_wire e) \<and> is_data d \<and> \<not> is_dict d \<longrightarrow>
            Client_account lx http = Inl AssertionError
          \<and> Client_server lx http server_id = Inl AssertionError
          \<and> Client_log lx http server_id = Inl AssertionError
          \<and> Client_share_log lx http server_id = Inl AssertionError
          \<and> Client_ram lx http server_id = Inl AssertionError
          \<and> Client_set_ram lx http server_id ram = Inl AssertionError
          \<and> Client_motd lx http server_id = Inl AssertionError
          \<and> Client_set_motd lx http server_id motd = Inl AssertionError
          \<and> Client_path_info lx http server_id path = Inl AssertionError)
       \<and> (map_of kvs ''error'' = Some (str_opt_wire e) \<and> is_data d \<and> \<not> is_list d \<longrightarrow>
            Client_servers lx http = Inl AssertionError
          \<and> Client_enabled_playerlists lx http server_id = Inl AssertionError
          \<and> Client_playerlist_content lx http server_id list_name = Inl AssertionError
          \<and> Client_add_to_playerlist lx http server_id list_name content = Inl AssertionError
          \<and> Client_remove_from_playerlist lx http server_id list_name content = Inl AssertionError
          \<and> Client_get_config_options lx http server_id path = Inl AssertionError
          \<and> Client_set_config_options lx http server_id options path = Inl AssertionError)
       \<and> (map_of kvs ''error'' = Some (str_opt_wire e) \<and> (is_dict d \<or> is_list d) \<longrightarrow>
            Client_start lx http server_id use_own_credits = Inl AssertionError
          \<and> Client_stop lx http server_id = Inl AssertionError
          \<and> Client_restart lx http server_id = Inl AssertionError
          \<and> Client_execute_command lx http server_id command = Inl AssertionError
          \<and> Client_write_file_data lx http server_id path bytes = Inl AssertionError
          \<and> Client_create_directory lx http server_id path = Inl AssertionError
          \<and> Client_delete_file_data lx http server_id path = Inl AssertionError)
       \<and> (map_of kvs ''error'' = Some (str_opt_wire e) \<and> \<not> is_data d \<longrightarrow>
            Response_fields lx kvs = Inl data_errors)
       \<and> (map_of kvs ''error'' = None \<and> is_data d \<longrightarrow>
            Response_fields lx kvs = Inl [([Field ''error''], missing)])
       \<and> (Response_fields lx kvs = Inl es \<longrightarrow>
            Client_account lx http = Inl (ValidationError es)
          \<and> Client_server lx http server_id = Inl (ValidationError es)
          \<and> Client_log lx http server_id = Inl (ValidationError es)
          \<and> Client_share_log lx http server_id = Inl (ValidationError es)
          \<and> Client_ram lx http server_id = Inl (ValidationError es)
          \<and> Client_set_ram lx http server_id ram = Inl (ValidationError es)
          \<and> Client_motd lx http server_id = Inl (ValidationError es)
          \<and> Client_set_motd lx http server_id motd = Inl (ValidationError es)
          \<and> Client_path_info lx http server_id path = Inl (ValidationError es)
          \<and> Client_servers lx http = Inl (ValidationError es)
          \<and> Client_enabled_playerlists lx http server_id = Inl (ValidationError es)
          \<and> Client_playerlist_content lx http server_id list_name = Inl (ValidationError es)
          \<and> Client_add_to_playerlist lx http server_id list_name content = Inl (ValidationError es)
          \<and> Client_remove_from_playerlist lx http server_id list_name content = Inl (ValidationError es)
          \<and> Client_get_config_options lx http server_id path = Inl (ValidationError es)
          \<and> Client_set_config_options lx http server_id options path = Inl (ValidationError es)
          \<and> Client_start lx http server_id use_own_credits = Inl (ValidationError es)
          \<and> Client_stop lx http server_id = Inl (ValidationError es)
          \<and> Client_restart lx http server_id = Inl (ValidationError es)
          \<and> Client_execute_command lx http server_id command = Inl (ValidationError es)
          \<and> Client_write_file_data lx http server_id path bytes = Inl (ValidationError es)
          \<and> Client_create_directory lx http server_id path = Inl (ValidationError es)
          \<and> Client_delete_file_data lx http server_id path = Inl (ValidationError es))"
proof -
  have ok: "Response_fields lx kvs =
      Inr \<lparr>Response_success = True, Response_error = e, Response_data = d\<rparr>"
    if "map_of kvs ''error'' = Some (str_opt_wire e)" and "is_data d"
    using that assms(2,3)
    by (simp add: Response_fields_accepted [where s = True and e = e and d = d])
  have mismatch:
    "(\<not> is_dict d \<longrightarrow>
            Client_account lx http = Inl AssertionError
          \<and> Client_server lx http server_id = Inl AssertionError
          \<and> Client_log lx http server_id = Inl AssertionError
          \<and> Client_share_log lx http server_id = Inl AssertionError
          \<and> Client_ram lx http server_id = Inl AssertionError
          \<and> Client_set_ram lx http server_id ram = Inl AssertionError
          \<and> Client_motd lx http server_id = Inl AssertionError
          \<and> Client_set_motd lx http server_id motd = Inl AssertionError
          \<and> Client_path_info lx http server_id path = Inl AssertionError)
     \<and> (\<not> is_list d \<longrightarrow>
            Client_servers lx http = Inl AssertionError
          \<and> Client_enabled_playerlists lx http server_id = Inl AssertionError
          \<and> Client_playerlist_content lx http server_id list_name = Inl AssertionError
          \<and> Client_add_to_playerlist lx http server_id list_name content = Inl AssertionError
          \<and> Client_remove_from_playerlist lx http server_id list_name content = Inl AssertionError
          \<and> Client_get_config_options lx http server_id path = Inl AssertionError
          \<and> Client_set_config_options lx http server_id options path = Inl AssertionError)
     \<and> (is_dict d \<or> is_list d \<longrightarrow>
            Client_start lx http server_id use_own_credits = Inl AssertionError
          \<and> Client_stop lx http server_id = Inl AssertionError
          \<and> Client_restart lx http server_id = Inl AssertionError
          \<and> Client_execute_command lx http server_id command = Inl AssertionError
          \<and> Client_write_file_data lx http server_id path bytes = Inl AssertionError
          \<and> Client_create_directory lx http server_id path = Inl AssertionError
          \<and> Client_delete_file_data lx http server_id path = Inl AssertionError)"
    if e: "map_of kvs ''error'' = Some (str_opt_wire e)" and d: "is_data d"
  proof -
    note r = ok [OF e d]
    note dec = get_data_accepted [OF assms(1) r] object_accepted [OF assms(1) r]
    have f: "init (Response_fields lx) (JDict kvs)
        = Inr \<lparr>Response_success = True, Response_error = e, Response_data = d\<rparr>"
      by (simp add: init_def r)
    show ?thesis
      using d
      by (cases d)
         (simp_all add: operation_defs file_operation_defs dec assms(1) f dict_item_def
            list_data_def str_or_None_def is_dict_def is_list_def is_data_def)
  qed
  have shape: "is_data d" if "is_dict d \<or> is_list d"
    using that by (cases d) (simp_all add: is_data_def is_dict_def is_list_def)
  have bad: "Response_fields lx kvs = Inl data_errors"
    if "map_of kvs ''error'' = Some (str_opt_wire e) \<and> \<not> is_data d"
    using that assms(2,3)
    by (simp add: Response_fields_bad_data [where s = True and e = e and d = d])
  have noerr: "Response_fields lx kvs = Inl [([Field ''error''], missing)]"
    if "map_of kvs ''error'' = None \<and> is_data d"
    using that assms(2,3)
    by (simp add: Response_fields_no_error [where s = True and d = d])
  have rejected:
    "Client_account lx http = Inl (ValidationError es)
     \<and> Client_server lx http server_id = Inl (ValidationError es)
     \<and> Client_log lx http server_id = Inl (ValidationError es)
     \<and> Client_share_log lx http server_id = Inl (ValidationError es)
     \<and> Client_ram lx http server_id = Inl (ValidationError es)
     \<and> Client_set_ram lx http server_id ram = Inl (ValidationError es)
     \<and> Client_motd lx http server_id = Inl (ValidationError es)
     \<and> Client_set_motd lx http server_id motd = Inl (ValidationError es)
     \<and> Client_path_info lx http server_id path = Inl (ValidationError es)
     \<and> Client_servers lx http = Inl (ValidationError es)
     \<and> Client_enabled_playerlists lx http server_id = Inl (ValidationError es)
     \<and> Client_playerlist_content lx http server_id list_name = Inl (ValidationError es)
     \<and> Client_add_to_playerlist lx http server_id list_name content = Inl (ValidationError es)
     \<and> Client_remove_from_playerlist lx http server_id list_name content = Inl (ValidationError es)
     \<and> Client_get_config_options lx http server_id path = Inl (ValidationError es)
     \<and> Client_set_config_options lx http server_id options path = Inl (ValidationError es)
     \<and> Client_start lx http server_id use_own_credits = Inl (ValidationError es)
     \<and> Client_stop lx http server_id = Inl (ValidationError es)
     \<and> Client_restart lx http server_id = Inl (ValidationError es)
     \<and> Client_execute_command lx http server_id command = Inl (ValidationError es)
     \<and> Client_write_file_data lx http server_id path bytes = Inl (ValidationError es)
     \<and> Client_create_directory lx http server_id path = Inl (ValidationError es)
     \<and> Client_delete_file_data lx http server_id path = Inl (ValidationError es)"
    if r: "Response_fields lx kvs = Inl es"
  proof -
    note dec = decoders_rejected [OF assms(1) r]
    have f: "init (Response_fields lx) (JDict kvs) = Inl (ValidationError es)"
      by (simp add: init_def r)
    show ?thesis
      by (simp add: operation_defs file_operation_defs dec assms(1) f)
  qed
  have A:
      "Client_account lx http = Inl AssertionError
       \<and> Client_server lx http server_id = Inl AssertionError
       \<and> Client_log lx http server_id = Inl AssertionError
       \<and> Client_share_log lx http server_id = Inl AssertionError
       \<and> Client_ram lx http server_id = Inl AssertionError
       \<and> Client_set_ram lx http server_id ram = Inl AssertionError
       \<and> Client_motd lx http server_id = Inl AssertionError
       \<and> Client_set_motd lx http server_id motd = Inl AssertionError
       \<and> Client_path_info lx http server_id path = Inl AssertionError"
    if "map_of kvs ''error'' = Some (str_opt_wire e) \<and> is_data d \<and> \<not> is_dict d"
    using mismatch that by blast
  have B:
      "Client_servers lx http = Inl AssertionError
       \<and> Client_enabled_playerlists lx http server_id = Inl AssertionError
       \<and> Client_playerlist_content lx http server_id list_name = Inl AssertionError
       \<and> Client_add_to_playerlist lx http server_id list_name content = Inl AssertionError
       \<and> Client_remove_from_playerlist lx http server_id list_name content = Inl AssertionError
       \<and> Client_get_config_options lx http server_id path = Inl AssertionError
       \<and> Client_set_config_options lx http server_id options path = Inl AssertionError"
    if "map_of kvs ''error'' = Some (str_opt_wire e) \<and> is_data d \<and> \<not> is_list d"
    using mismatch that by blast
  have C:
      "Client_start lx http server_id use_own_credits = Inl AssertionError
       \<and> Client_stop lx http server_id = Inl AssertionError
       \<and> Client_restart lx http server_id = Inl AssertionError
       \<and> Client_execute_command lx http server_id command = Inl AssertionError
       \<and> Client_write_file_data lx http server_id path bytes = Inl AssertionError
       \<and> Client_create_directory lx http server_id path = Inl AssertionError
       \<and> Client_delete_file_data lx http server_id path = Inl AssertionError"
    if "map_of kvs ''error'' = Some (str_opt_wire e) \<and> (is_dict d \<or> is_list d)"
    using mismatch shape that by blast
  show ?thesis
    by (rule conjI [OF impI [OF A] conjI [OF impI [OF B] conjI [OF impI [OF C]
          conjI [OF impI [OF bad] conjI [OF impI [OF noerr] impI [OF rejected]]]]]])
qed

theorem shape_mismatch_witness:
  "Client_account no_lax
     (\<lambda>v u b. Inr (JDict [(''success'', JBool True), (''error'', JNull),
                          (''data'', JList [])])) = Inl AssertionError
   \<and> Client_set_ram no_lax
     (\<lambda>v u b. Inr (JDict [(''success'', JBool True), (''error'', JNull),
                          (''data'', JList [])])) ''abc'' 4 = Inl AssertionError
   \<and> Client_servers no_lax
     (\<lambda>v u b. Inr (JDict [(''success'', JBool True), (''error'', JNull),
                          (''data'', JStr ''none'')])) = Inl AssertionError
   \<and> Client_add_to_playerlist no_lax
     (\<lambda>v u b. Inr (JDict [(''success'', JBool True), (''error'', JNull),
                          (''data'', JStr ''none'')])) ''abc'' ''ops'' [''steve'']
       = Inl AssertionError
   \<and> Client_start no_lax
     (\<lambda>v u b. Inr (JDict [(''success'', JBool True), (''error'', JNull),
                          (''data'', JList [])])) ''abc'' True = Inl AssertionError
   \<and> Client_stop no_lax
     (\<lambda>v u b. Inr (JDict [(''success'', JBool True), (''error'', JNull),
                          (''data'', JList [])])) ''abc'' = Inl AssertionError
   \<and> Client_delete_file_data no_lax
     (\<lambda>v u b. Inr (JDict [(''success'', JBool True), (''error'', JNull),
                          (''data'', JList [])])) ''abc'' ''world'' = Inl AssertionError
   \<and> Client_servers no_lax
     (\<lambda>v u b. Inr (JDict [(''success'', JBool True), (''error'', JNull),
                          (''data'', JBool True)])) = Inl (ValidationError data_errors)
   \<and> Client_stop no_lax
     (\<lambda>v u b. Inr (JDict [(''success'', JBool True), (''data'', JNull)])) ''abc''
       = Inl (ValidationError [([Field ''error''], missing)])"
  using
    shape_mismatch [where http = "\<lambda>v u b. Inr (JDict [(''success'', JBool True),
          (''error'', JNull), (''data'', JList [])])"
      and kvs = "[(''success'', JBool True), (''error'', JNull), (''data'', JList [])]"
      and lx = no_lax and e = None and d = "JList []" and server_id = "''abc''" and ram = 4
      and use_own_credits = True and path = "''world''"]
    shape_mismatch [where http = "\<lambda>v u b. Inr (JDict [(''success'', JBool True),
          (''error'', JNull), (''data'', JStr ''none'')])"
      and kvs = "[(''success'', JBool True), (''error'', JNull), (''data'', JStr ''none'')]"
      and lx = no_lax and e = None and d = "JStr ''none''" and server_id = "''abc''"
      and list_name = "''ops''" and content = "[''steve'']"]
    shape_mismatch [where http = "\<lambda>v u b. Inr (JDict [(''success'', JBool True),
          (''error'', JNull), (''data'', JBool True)])"
      and kvs = "[(''success'', JBool True), (''error'', JNull), (''data'', JBool True)]"
      and lx = no_lax and e = None and d = "JBool True" and es = data_errors]
    shape_mismatch [where http = "\<lambda>v u b. Inr (JDict [(''success'', JBool True),
          (''data'', JNull)])"
      and kvs = "[(''success'', JBool True), (''data'', JNull)]"
      and lx = no_lax and d = JNull and es = "[([Field ''error''], missing)]"
      and server_id = "''abc''"]
  by (simp add: str_opt_wire_def is_data_def is_dict_def is_list_def)

theorem shape_mismatch_number_counterexample:
  "Client_account no_lax
     (\<lambda>v u b. Inr (JDict [(''success'', JBool True), (''error'', JNull), (''data'', JInt 5)]))
   = Inl (ValidationError
       [([Field ''data'', Member ''dict[any,any]''], dict_type),
        ([Field ''data'', Member ''list[any]''], list_type),
        ([Field ''data'', Member ''str''], string_type)])"
  by (simp add: Client_account_def Client_get_data_def init_def Response_fields_def field_def
        ap_def at_def bool_v_def optional_v_def str_v_def data_v_def)

text \<open>
  C7. \<^verbatim>\<open>start\<close>, \<^verbatim>\<open>stop\<close> and \<^verbatim>\<open>restart\<close> on the acknowledgement
  \<^verbatim>\<open>{"success": true, "error": null, "data": null}\<close>: through the GET decoder each
  returns \<^verbatim>\<open>None\<close>; \<^verbatim>\<open>start\<close> with \<^verbatim>\<open>use_own_credits=True\<close> goes through
  \<^verbatim>\<open>_post_object\<close> and raises \<^verbatim>\<open>AssertionError\<close>.
\<close>

theorem start_own_credits_None_data:
  "Client_start lx (\<lambda>v u b. Inr no_content) server_id True = Inl AssertionError
   \<and> Client_start lx (\<lambda>v u b. Inr no_content) server_id False = Inr None
   \<and> Client_stop lx (\<lambda>v u b. Inr no_content) server_id = Inr None
   \<and> Client_restart lx (\<lambda>v u b. Inr no_content) server_id = Inr None"
proof -
  let ?kvs = "[(''success'', JBool True), (''error'', JNull), (''data'', JNull)]"
  have r: "Response_fields lx ?kvs =
      Inr \<lparr>Response_success = True, Response_error = None, Response_data = JNull\<rparr>"
    by (rule Response_fields_accepted) (simp_all add: str_opt_wire_def is_data_def)
  have h: "\<And>v u b. (\<lambda>v u b. Inr no_content) v u b = (Inr (JDict ?kvs) :: exception + json)"
    by (simp add: no_content_def)
  show ?thesis
    using get_data_accepted [OF h r] object_accepted(1) [OF h r]
    by (simp add: Client_start_def Client_stop_def Client_restart_def str_or_None_def)
qed

text \<open>
  C10. The decoder does not require an error message of a failure: with \<^verbatim>\<open>success\<close>
  false and \<^verbatim>\<open>error\<close> null the envelope is a valid \<^verbatim>\<open>Response\<close> and the decoders
  raise \<^verbatim>\<open>ExaError(None)\<close>. The key itself is required: without it the construction
  of \<^verbatim>\<open>Response\<close> raises \<^verbatim>\<open>ValidationError\<close> for the missing field.
\<close>

theorem failure_without_message:
  assumes "http v (BASE_URL @ route) (request_body v object) = Inr (JDict kvs)"
    and "map_of kvs ''success'' = Some (JBool False)"
    and "map_of kvs ''data'' = Some d" and "is_data d"
  shows "(map_of kvs ''error'' = Some JNull \<longrightarrow>
            Client_decode lx http v route object = Inl (ExaError None))
       \<and> (map_of kvs ''error'' = None \<longrightarrow>
            Client_decode lx http v route object
              = Inl (ValidationError [([Field ''error''], missing)]))"
proof (intro conjI impI)
  assume "map_of kvs ''error'' = Some JNull"
  with assms have "Response_fields lx kvs =
      Inr \<lparr>Response_success = False, Response_error = None, Response_data = d\<rparr>"
    by (simp add: Response_fields_accepted [where s = False and e = None and d = d]
          str_opt_wire_def)
  then show "Client_decode lx http v route object = Inl (ExaError None)"
    by (simp add: decode_Response [where http = http and v = v and route = route and object = object, OF assms(1)])
next
  assume "map_of kvs ''error'' = None"
  with assms have "Response_fields lx kvs = Inl [([Field ''error''], missing)]"
    by (simp add: Response_fields_no_error [where s = False and d = d])
  then show "Client_decode lx http v route object
      = Inl (ValidationError [([Field ''error''], missing)])"
    by (simp add: decode_Response [where http = http and v = v and route = route and object = object, OF assms(1)])
qed

theorem failure_without_message_witness:
  "Client_decode no_lax
     (\<lambda>v u b. Inr (JDict [(''success'', JBool False), (''error'', JNull), (''data'', JNull)]))
     GET ''servers/abc/stop'' JNull = Inl (ExaError None)
   \<and> Client_decode no_lax
     (\<lambda>v u b. Inr (JDict [(''success'', JBool False), (''data'', JStr ''x'')]))
     PUT ''servers/abc/playerlists/ops'' (JDict [(''entries'', JList [])])
     = Inl (ValidationError [([Field ''error''], missing)])"
  using failure_without_message [where http = "\<lambda>v u b. Inr (JDict [(''success'', JBool False), (''error'', JNull), (''data'', JNull)])"
      and kvs = "[(''success'', JBool False), (''error'', JNull), (''data'', JNull)]"
      and v = GET and lx = no_lax and d = JNull and route = "''servers/abc/stop''" and object = JNull]
    failure_without_message [where http = "\<lambda>v u b. Inr (JDict [(''success'', JBool False), (''data'', JStr ''x'')])"
      and kvs = "[(''success'', JBool False), (''data'', JStr ''x'')]"
      and v = PUT and lx = no_lax and d = "JStr ''x''" and route = "''servers/abc/playerlists/ops''"
      and object = "JDict [(''entries'', JList [])]"]
  by (simp add: is_data_def)

theorem failure_absent_error_counterexample:
  "init (Response_fields no_lax) (JDict [(''success'', JBool False), (''data'', JNull)])
     = Inl (ValidationError [([Field ''error''], missing)])
   \<and> Client_get_data no_lax
       (\<lambda>v u b. Inr (JDict [(''success'', JBool False), (''data'', JNull)])) ''account''
     = Inl (ValidationError [([Field ''error''], missing)])"
  by (simp add: Client_get_data_def init_def Response_fields_def field_def ap_def at_def
        fail_def bool_v_def data_v_def)

section \<open>Claims about the records\<close>

text \<open>
  C4. \<^verbatim>\<open>ServerStatus\<close> decoding: the integers 0 to 8 and 10 give the members
  \<^verbatim>\<open>offline\<close>, \<^verbatim>\<open>online\<close>, \<^verbatim>\<open>starting\<close>, \<^verbatim>\<open>stopping\<close>, \<^verbatim>\<open>restarting\<close>, \<^verbatim>\<open>saving\<close>,
  \<^verbatim>\<open>loading\<close>, \<^verbatim>\<open>crashed\<close>, \<^verbatim>\<open>pending\<close> and \<^verbatim>\<open>preparing\<close>; every other integer, 9
  among them, is an enum error, and a \<^verbatim>\<open>Server\<close> payload with such a status raises
  \<^verbatim>\<open>ValidationError\<close> citing \<^verbatim>\<open>status\<close>.
\<close>

theorem ServerStatus_decoding:
  "ServerStatus_v lx (JInt 0) = Inr offline
   \<and> ServerStatus_v lx (JInt 1) = Inr online
   \<and> ServerStatus_v lx (JInt 2) = Inr starting
   \<and> ServerStatus_v lx (JInt 3) = Inr stopping
   \<and> ServerStatus_v lx (JInt 4) = Inr restarting
   \<and> ServerStatus_v lx (JInt 5) = Inr saving
   \<and> ServerStatus_v lx (JInt 6) = Inr loading
   \<and> ServerStatus_v lx (JInt 7) = Inr crashed
   \<and> ServerStatus_v lx (JInt 8) = Inr pending
   \<and> ServerStatus_v lx (JInt 10) = Inr preparing
   \<and> (n \<notin> {0, 1, 2, 3, 4, 5, 6, 7, 8, 10} \<longrightarrow>
        ServerStatus_v lx (JInt n) = Inl [([], enum_type)]
        \<and> (map_of kvs ''status'' = Some (JInt n) \<longrightarrow>
             (\<exists>es. init (Server_fields lx) (JDict kvs) = Inl (ValidationError es)
                   \<and> ([Field ''status''], enum_type) \<in> set es)))"
proof -
  have ok: "ServerStatus_v lx (JInt 0) = Inr offline"
    "ServerStatus_v lx (JInt 1) = Inr online"
    "ServerStatus_v lx (JInt 2) = Inr starting"
    "ServerStatus_v lx (JInt 3) = Inr stopping"
    "ServerStatus_v lx (JInt 4) = Inr restarting"
    "ServerStatus_v lx (JInt 5) = Inr saving"
    "ServerStatus_v lx (JInt 6) = Inr loading"
    "ServerStatus_v lx (JInt 7) = Inr crashed"
    "ServerStatus_v lx (JInt 8) = Inr pending"
    "ServerStatus_v lx (JInt 10) = Inr preparing"
    by (simp_all add: ServerStatus_v_JInt ServerStatus_call_cases)
  have bad: "ServerStatus_v lx (JInt n) = Inl [([], enum_type)]"
    if "n \<notin> {0, 1, 2, 3, 4, 5, 6, 7, 8, 10}"
    using that by (simp add: ServerStatus_v_JInt ServerStatus_call_cases fail_def)
  have rec: "\<exists>es. init (Server_fields lx) (JDict kvs) = Inl (ValidationError es)
                   \<and> ([Field ''status''], enum_type) \<in> set es"
    if n: "n \<notin> {0, 1, 2, 3, 4, 5, 6, 7, 8, 10}" and k: "map_of kvs ''status'' = Some (JInt n)"
  proof -
    have "field kvs ''status'' (ServerStatus_v lx) = Inl [([Field ''status''], enum_type)]"
      using bad [OF n] k by (simp add: field_def at_def)
    then have m: "([Field ''status''], enum_type) \<in> set (errors_of (Server_fields lx kvs))"
      by (simp add: Server_errors)
    then have "Server_fields lx kvs = Inl (errors_of (Server_fields lx kvs))"
      by (intro errors_Inl) auto
    then have "init (Server_fields lx) (JDict kvs)
                 = Inl (ValidationError (errors_of (Server_fields lx kvs)))"
      by (cases "Server_fields lx kvs") (simp_all add: init_def)
    with m show ?thesis by blast
  qed
  from ok bad rec show ?thesis by blast
qed

theorem ServerStatus_decoding_witness:
  "(9::int) \<notin> {0, 1, 2, 3, 4, 5, 6, 7, 8, 10}
   \<and> ServerStatus_v no_lax (JInt 9) = Inl [([], enum_type)]
   \<and> map_of ((''status'', JInt 9) # example_server) ''status'' = Some (JInt 9)
   \<and> (\<exists>es. init (Server_fields no_lax) (JDict ((''status'', JInt 9) # example_server))
              = Inl (ValidationError es)
            \<and> ([Field ''status''], enum_type) \<in> set es)"
  using ServerStatus_decoding [of no_lax 9 "(''status'', JInt 9) # example_server"]
  by simp

text \<open>
  C5. \<^verbatim>\<open>ConfigOption.value\<close> is validated as \<^verbatim>\<open>Union[str, int, float, bool]\<close> and
  \<^verbatim>\<open>type\<close> as a plain \<^verbatim>\<open>str\<close>; no validator relates the two. A payload whose
  \<^verbatim>\<open>value\<close> is a string, an integer, a float or a boolean validates whatever string
  \<^verbatim>\<open>type\<close> holds, and the record keeps the value in its own kind (an integer stays an
  integer, a boolean a boolean); the same holds for each element of \<^verbatim>\<open>options\<close>. So
  with \<^verbatim>\<open>type\<close> \<^verbatim>\<open>"boolean"\<close> the value \<^verbatim>\<open>true\<close> validates as a boolean, and the string
  \<^verbatim>\<open>"true"\<close> validates as well, as a string.
\<close>

theorem ConfigOption_value_kind_preserved:
  "(map_of kvs ''key'' = Some (JStr k) \<and> map_of kvs ''value'' = Some (scalar_wire v)
    \<and> map_of kvs ''label'' = Some (JStr l) \<and> map_of kvs ''type'' = Some (JStr t)
    \<and> map_of kvs ''options'' = Some (options_wire os) \<longrightarrow>
      ConfigOption_fields lx kvs =
        Inr \<lparr>ConfigOption_key = k, ConfigOption_value = v, ConfigOption_label = l,
             ConfigOption_type = t, ConfigOption_options = os\<rparr>)
   \<and> (ConfigOption_fields lx kvs = Inr c \<and> map_of kvs ''value'' = Some (scalar_wire v) \<longrightarrow>
        ConfigOption_value c = v)
   \<and> (ConfigOption_fields lx kvs = Inr c \<and> map_of kvs ''options'' = Some (options_wire os) \<longrightarrow>
        ConfigOption_options c = os)"
proof (intro conjI impI)
  assume a: "map_of kvs ''key'' = Some (JStr k) \<and> map_of kvs ''value'' = Some (scalar_wire v)
    \<and> map_of kvs ''label'' = Some (JStr l) \<and> map_of kvs ''type'' = Some (JStr t)
    \<and> map_of kvs ''options'' = Some (options_wire os)"
  then have "field kvs ''key'' str_v = Inr k" "field kvs ''value'' (scalar_v lx) = Inr v"
    "field kvs ''label'' str_v = Inr l" "field kvs ''type'' str_v = Inr t"
    "field kvs ''options'' (optional_v (list_v (scalar_v lx))) = Inr os"
    by (simp_all add: field_Inr_iff str_v_def scalar_v_wire options_v_wire)
  then show "ConfigOption_fields lx kvs =
        Inr \<lparr>ConfigOption_key = k, ConfigOption_value = v, ConfigOption_label = l,
             ConfigOption_type = t, ConfigOption_options = os\<rparr>"
    by (simp add: ConfigOption_fields_Inr_iff)
next
  assume "ConfigOption_fields lx kvs = Inr c \<and> map_of kvs ''value'' = Some (scalar_wire v)"
  then show "ConfigOption_value c = v"
    by (auto simp: ConfigOption_fields_Inr_iff field_Inr_iff scalar_v_wire)
next
  assume "ConfigOption_fields lx kvs = Inr c \<and> map_of kvs ''options'' = Some (options_wire os)"
  then show "ConfigOption_options c = os"
    by (auto simp: ConfigOption_fields_Inr_iff field_Inr_iff options_v_wire)
qed

theorem ConfigOption_value_kind_preserved_witness:
  "map_of example_option ''value'' = Some (scalar_wire (VBool True))
   \<and> map_of example_option ''type'' = Some (JStr ''boolean'')
   \<and> ConfigOption_fields no_lax example_option =
       Inr \<lparr>ConfigOption_key = ''pvp'', ConfigOption_value = VBool True,
            ConfigOption_label = ''PvP'', ConfigOption_type = ''boolean'',
            ConfigOption_options = None\<rparr>
   \<and> map_of example_select ''value'' = Some (scalar_wire (VInt 2))
   \<and> map_of example_select ''options''
       = Some (options_wire (Some [VInt 0, VInt 1, VInt 2, VInt 3]))
   \<and> ConfigOption_fields no_lax example_select =
       Inr \<lparr>ConfigOption_key = ''difficulty'', ConfigOption_value = VInt 2,
            ConfigOption_label = ''Difficulty'', ConfigOption_type = ''select'',
            ConfigOption_options = Some [VInt 0, VInt 1, VInt 2, VInt 3]\<rparr>"
  using ConfigOption_value_kind_preserved [where lx = no_lax and kvs = example_option
      and k = "''pvp''" and v = "VBool True" and l = "''PvP''" and t = "''boolean''"
      and os = None]
    ConfigOption_value_kind_preserved [where lx = no_lax and kvs = example_select
      and k = "''difficulty''" and v = "VInt 2" and l = "''Difficulty''" and t = "''select''"
      and os = "Some [VInt 0, VInt 1, VInt 2, VInt 3]"]
  by (simp add: example_option_def example_select_def options_wire_def)

theorem string_under_boolean_type_counterexample:
  "ConfigOption_fields no_lax example_string_option =
     Inr \<lparr>ConfigOption_key = ''pvp'', ConfigOption_value = VStr ''true'',
          ConfigOption_label = ''PvP'', ConfigOption_type = ''boolean'',
          ConfigOption_options = None\<rparr>"
  by (simp add: ConfigOption_fields_def example_string_option_def field_def at_def ap_def
        str_v_def scalar_v_def optional_v_def)


lemma Server_fields_example: "Server_fields no_lax example_server = Inr example_server_record"
  by (simp add: Server_fields_def example_server_def example_server_record_def field_def
        at_def ap_def str_v_def ServerStatus_v_def ServerStatus_call_cases optional_v_def
        model_v_def ServerPlayers_fields_def ServerSoftware_fields_def int_v_def list_v_def
        bool_v_def)


lemmas kind_defs = violations_def field_ok_def is_str_def is_bool_def is_int_def is_float_def
  is_status_def is_scalar_def nullable_def is_list_of_def is_record_def


lemma violations_example_server: "violations example_server (Server_schema no_lax) = []"
  by (simp add: example_server_def Server_schema_def ServerPlayers_schema_def
        ServerSoftware_schema_def kind_defs)


text \<open>
  C8. The optional fields \<^verbatim>\<open>host\<close>, \<^verbatim>\<open>port\<close> and \<^verbatim>\<open>software\<close> of \<^verbatim>\<open>Server\<close>,
  \<^verbatim>\<open>children\<close> of \<^verbatim>\<open>PathInfo\<close> and \<^verbatim>\<open>options\<close> of \<^verbatim>\<open>ConfigOption\<close> are annotated
  \<^verbatim>\<open>Optional[...]\<close> with no default: the key is required and its value may be null. A
  payload that holds an explicit null under such a key, and in which no other field
  violates its constraint, validates, and the field of the record is \<^verbatim>\<open>None\<close>. In a
  validated record such a field is \<^verbatim>\<open>None\<close> exactly when the payload holds an explicit
  null under its key, so it is never filled with an empty or zero value. A payload
  without the key raises \<^verbatim>\<open>ValidationError\<close> with a missing-field error for it. A
  missing key and a null are therefore not treated alike: the payload of
  \<^verbatim>\<open>test_server\<close> validates with \<^verbatim>\<open>host\<close> null and fails without the key.
\<close>

theorem optional_field_null_or_missing:
  "(map_of kvs ''host'' = Some JNull \<and> set (violations kvs (Server_schema lx)) \<subseteq> {''host''} \<longrightarrow>
       (\<exists>s. Server_fields lx kvs = Inr s \<and> Server_host s = None))
   \<and> (map_of kvs ''port'' = Some JNull \<and> set (violations kvs (Server_schema lx)) \<subseteq> {''port''} \<longrightarrow>
       (\<exists>s. Server_fields lx kvs = Inr s \<and> Server_port s = None))
   \<and> (map_of kvs ''software'' = Some JNull
        \<and> set (violations kvs (Server_schema lx)) \<subseteq> {''software''} \<longrightarrow>
       (\<exists>s. Server_fields lx kvs = Inr s \<and> Server_software s = None))
   \<and> (map_of kvs ''children'' = Some JNull
        \<and> set (violations kvs (PathInfo_schema lx)) \<subseteq> {''children''} \<longrightarrow>
       (\<exists>p. PathInfo_fields lx kvs = Inr p \<and> PathInfo_children p = None))
   \<and> (map_of kvs ''options'' = Some JNull
        \<and> set (violations kvs (ConfigOption_schema lx)) \<subseteq> {''options''} \<longrightarrow>
       (\<exists>c. ConfigOption_fields lx kvs = Inr c \<and> ConfigOption_options c = None))
   \<and> (Server_fields lx kvs = Inr s \<longrightarrow>
       (Server_host s = None \<longleftrightarrow> map_of kvs ''host'' = Some JNull)
     \<and> (Server_port s = None \<longleftrightarrow> map_of kvs ''port'' = Some JNull)
     \<and> (Server_software s = None \<longleftrightarrow> map_of kvs ''software'' = Some JNull))
   \<and> (PathInfo_fields lx kvs = Inr p \<longrightarrow>
       (PathInfo_children p = None \<longleftrightarrow> map_of kvs ''children'' = Some JNull))
   \<and> (ConfigOption_fields lx kvs = Inr c \<longrightarrow>
       (ConfigOption_options c = None \<longleftrightarrow> map_of kvs ''options'' = Some JNull))
   \<and> (map_of kvs ''host'' = None \<longrightarrow>
       (\<exists>es. Server_fields lx kvs = Inl es \<and> ([Field ''host''], missing) \<in> set es))
   \<and> (map_of kvs ''port'' = None \<longrightarrow>
       (\<exists>es. Server_fields lx kvs = Inl es \<and> ([Field ''port''], missing) \<in> set es))
   \<and> (map_of kvs ''software'' = None \<longrightarrow>
       (\<exists>es. Server_fields lx kvs = Inl es \<and> ([Field ''software''], missing) \<in> set es))
   \<and> (map_of kvs ''children'' = None \<longrightarrow>
       (\<exists>es. PathInfo_fields lx kvs = Inl es \<and> ([Field ''children''], missing) \<in> set es))
   \<and> (map_of kvs ''options'' = None \<longrightarrow>
       (\<exists>es. ConfigOption_fields lx kvs = Inl es \<and> ([Field ''options''], missing) \<in> set es))"
proof -
  have srv: "\<exists>s. Server_fields lx kvs = Inr s" if "violations kvs (Server_schema lx) = []"
    using Server_inv [of lx kvs] that by (cases "Server_fields lx kvs") (simp_all add: inv_def)
  have pth: "\<exists>p. PathInfo_fields lx kvs = Inr p" if "violations kvs (PathInfo_schema lx) = []"
    using PathInfo_inv [of lx kvs] that by (cases "PathInfo_fields lx kvs") (simp_all add: inv_def)
  have cfg: "\<exists>c. ConfigOption_fields lx kvs = Inr c"
    if "violations kvs (ConfigOption_schema lx) = []"
    using ConfigOption_inv [of lx kvs] that
    by (cases "ConfigOption_fields lx kvs") (simp_all add: inv_def)
  have s_iff: "(Server_host s = None \<longleftrightarrow> map_of kvs ''host'' = Some JNull)
     \<and> (Server_port s = None \<longleftrightarrow> map_of kvs ''port'' = Some JNull)
     \<and> (Server_software s = None \<longleftrightarrow> map_of kvs ''software'' = Some JNull)"
    if "Server_fields lx kvs = Inr s" for s
  proof -
    from that have f: "field kvs ''host'' (optional_v str_v) = Inr (Server_host s)"
      "field kvs ''port'' (optional_v (int_v lx)) = Inr (Server_port s)"
      "field kvs ''software'' (optional_v (model_v ServerSoftware_fields))
         = Inr (Server_software s)"
      by (simp_all add: Server_fields_Inr_iff)
    show ?thesis
      using f [THEN field_optional_None_iff] by simp
  qed
  have p_iff: "PathInfo_children p = None \<longleftrightarrow> map_of kvs ''children'' = Some JNull"
    if "PathInfo_fields lx kvs = Inr p" for p
  proof -
    from that have "field kvs ''children'' (optional_v (list_v (PathInfo_at lx (Suc 0))))
        = Inr (PathInfo_children p)"
      by (simp add: PathInfo_fields_Inr_iff)
    then show ?thesis
      by (rule field_optional_None_iff)
  qed
  have c_iff: "ConfigOption_options c = None \<longleftrightarrow> map_of kvs ''options'' = Some JNull"
    if "ConfigOption_fields lx kvs = Inr c" for c
  proof -
    from that have "field kvs ''options'' (optional_v (list_v (scalar_v lx)))
        = Inr (ConfigOption_options c)"
      by (simp add: ConfigOption_fields_Inr_iff)
    then show ?thesis
      by (rule field_optional_None_iff)
  qed
  have host: "\<exists>s. Server_fields lx kvs = Inr s \<and> Server_host s = None"
    if "map_of kvs ''host'' = Some JNull \<and> set (violations kvs (Server_schema lx)) \<subseteq> {''host''}"
  proof -
    from that have "''host'' \<notin> set (violations kvs (Server_schema lx))"
      by (simp add: Server_schema_def violations_Cons field_ok_def nullable_def)
    with that have "violations kvs (Server_schema lx) = []"
      by (cases "violations kvs (Server_schema lx)") auto
    with srv s_iff that show ?thesis by blast
  qed
  have port: "\<exists>s. Server_fields lx kvs = Inr s \<and> Server_port s = None"
    if "map_of kvs ''port'' = Some JNull \<and> set (violations kvs (Server_schema lx)) \<subseteq> {''port''}"
  proof -
    from that have "''port'' \<notin> set (violations kvs (Server_schema lx))"
      by (simp add: Server_schema_def violations_Cons field_ok_def nullable_def)
    with that have "violations kvs (Server_schema lx) = []"
      by (cases "violations kvs (Server_schema lx)") auto
    with srv s_iff that show ?thesis by blast
  qed
  have software: "\<exists>s. Server_fields lx kvs = Inr s \<and> Server_software s = None"
    if "map_of kvs ''software'' = Some JNull
        \<and> set (violations kvs (Server_schema lx)) \<subseteq> {''software''}"
  proof -
    from that have "''software'' \<notin> set (violations kvs (Server_schema lx))"
      by (simp add: Server_schema_def violations_Cons field_ok_def nullable_def)
    with that have "violations kvs (Server_schema lx) = []"
      by (cases "violations kvs (Server_schema lx)") auto
    with srv s_iff that show ?thesis by blast
  qed
  have children: "\<exists>p. PathInfo_fields lx kvs = Inr p \<and> PathInfo_children p = None"
    if "map_of kvs ''children'' = Some JNull
        \<and> set (violations kvs (PathInfo_schema lx)) \<subseteq> {''children''}"
  proof -
    from that have "''children'' \<notin> set (violations kvs (PathInfo_schema lx))"
      by (simp add: PathInfo_schema_def violations_Cons field_ok_def nullable_def)
    with that have "violations kvs (PathInfo_schema lx) = []"
      by (cases "violations kvs (PathInfo_schema lx)") auto
    with pth p_iff that show ?thesis by blast
  qed
  have options: "\<exists>c. ConfigOption_fields lx kvs = Inr c \<and> ConfigOption_options c = None"
    if "map_of kvs ''options'' = Some JNull
        \<and> set (violations kvs (ConfigOption_schema lx)) \<subseteq> {''options''}"
  proof -
    from that have "''options'' \<notin> set (violations kvs (ConfigOption_schema lx))"
      by (simp add: ConfigOption_schema_def violations_Cons field_ok_def nullable_def)
    with that have "violations kvs (ConfigOption_schema lx) = []"
      by (cases "violations kvs (ConfigOption_schema lx)") auto
    with cfg c_iff that show ?thesis by blast
  qed
  have m1: "\<exists>es. Server_fields lx kvs = Inl es \<and> ([Field ''host''], missing) \<in> set es"
    if "map_of kvs ''host'' = None"
    using that by (intro cited_Inl) (simp add: Server_errors field_missing)
  have m2: "\<exists>es. Server_fields lx kvs = Inl es \<and> ([Field ''port''], missing) \<in> set es"
    if "map_of kvs ''port'' = None"
    using that by (intro cited_Inl) (simp add: Server_errors field_missing)
  have m3: "\<exists>es. Server_fields lx kvs = Inl es \<and> ([Field ''software''], missing) \<in> set es"
    if "map_of kvs ''software'' = None"
    using that by (intro cited_Inl) (simp add: Server_errors field_missing)
  have m4: "\<exists>es. PathInfo_fields lx kvs = Inl es \<and> ([Field ''children''], missing) \<in> set es"
    if "map_of kvs ''children'' = None"
    using that by (intro cited_Inl) (simp add: PathInfo_errors field_missing)
  have m5: "\<exists>es. ConfigOption_fields lx kvs = Inl es \<and> ([Field ''options''], missing) \<in> set es"
    if "map_of kvs ''options'' = None"
    using that by (intro cited_Inl) (simp add: ConfigOption_errors field_missing)
  show ?thesis
    by (rule conjI [OF impI [OF host] conjI [OF impI [OF port] conjI [OF impI [OF software]
          conjI [OF impI [OF children] conjI [OF impI [OF options] conjI [OF impI [OF s_iff]
          conjI [OF impI [OF p_iff] conjI [OF impI [OF c_iff] conjI [OF impI [OF m1]
          conjI [OF impI [OF m2] conjI [OF impI [OF m3] conjI [OF impI [OF m4]
          impI [OF m5]]]]]]]]]]]]])
qed

lemma Server_fields_no_host:
  "Server_fields no_lax example_server_no_host = Inl [([Field ''host''], missing)]"
  by (simp add: Server_fields_def example_server_no_host_def field_def
        at_def ap_def fail_def str_v_def ServerStatus_v_def ServerStatus_call_cases optional_v_def
        model_v_def ServerPlayers_fields_def ServerSoftware_fields_def int_v_def list_v_def
        bool_v_def)

lemma violations_null_software:
  "violations example_server_null_software (Server_schema no_lax) = []"
  by (simp add: example_server_null_software_def Server_schema_def ServerPlayers_schema_def
        ServerSoftware_schema_def kind_defs)

lemma violations_example_leaf: "violations example_leaf (PathInfo_schema no_lax) = []"
  by (simp add: example_leaf_def PathInfo_schema_def kind_defs)

lemma violations_example_option: "violations example_option (ConfigOption_schema no_lax) = []"
  by (simp add: example_option_def ConfigOption_schema_def kind_defs)

theorem optional_field_null_or_missing_witness:
  "map_of example_server ''host'' = Some JNull
   \<and> map_of example_server ''port'' = Some JNull
   \<and> violations example_server (Server_schema no_lax) = []
   \<and> (\<exists>s. Server_fields no_lax example_server = Inr s \<and> Server_host s = None)
   \<and> (\<exists>s. Server_fields no_lax example_server = Inr s \<and> Server_port s = None)
   \<and> map_of example_server_null_software ''software'' = Some JNull
   \<and> (\<exists>s. Server_fields no_lax example_server_null_software = Inr s
           \<and> Server_software s = None)
   \<and> map_of example_leaf ''children'' = Some JNull
   \<and> (\<exists>p. PathInfo_fields no_lax example_leaf = Inr p \<and> PathInfo_children p = None)
   \<and> map_of example_option ''options'' = Some JNull
   \<and> (\<exists>c. ConfigOption_fields no_lax example_option = Inr c \<and> ConfigOption_options c = None)
   \<and> Server_fields no_lax example_server = Inr example_server_record
   \<and> Server_software example_server_record \<noteq> None
   \<and> map_of example_server ''software'' \<noteq> Some JNull
   \<and> map_of example_server_no_host ''host'' = None
   \<and> (\<exists>es. Server_fields no_lax example_server_no_host = Inl es
            \<and> ([Field ''host''], missing) \<in> set es)"
  using optional_field_null_or_missing [where lx = no_lax and kvs = example_server
      and s = example_server_record]
    optional_field_null_or_missing [where lx = no_lax and kvs = example_server_null_software]
    optional_field_null_or_missing [where lx = no_lax and kvs = example_leaf]
    optional_field_null_or_missing [where lx = no_lax and kvs = example_option]
    optional_field_null_or_missing [where lx = no_lax and kvs = example_server_no_host]
    Server_fields_example
  by (simp add: violations_example_server violations_null_software violations_example_leaf
        violations_example_option)
     (simp add: example_server_def example_server_null_software_def example_leaf_def
        example_option_def example_server_no_host_def example_server_record_def)

theorem missing_host_counterexample:
  "Server_fields no_lax example_server = Inr example_server_record
   \<and> Server_fields no_lax example_server_no_host = Inl [([Field ''host''], missing)]"
  by (simp add: Server_fields_example Server_fields_no_host)







end
